theory Spec2Isabelle
  imports Main "HOL-Library.Product_Lexorder" "HOL-Library.Sublist"
begin

section \<open>Node quantization configuration: data model\<close>

text \<open>
  Shallow embedding of
  \<^verbatim>\<open>model_compression_toolkit/core/common/quantization/set_node_quantization_config.py\<close>.

  Quantization methods, attribute names and operator types are identified by their names.
  A quantizer or parameter-fitting callable is identified by its name as well: this module
  only looks such callables up and binds them, it never calls them.
\<close>

type_synonym qmethod = string
type_synonym attr = string
type_synonym ntype = string
type_synonym fn = string

text \<open>
  A \<^verbatim>\<open>QuantizationConfig\<close> policy is a heap object. The store is the list of the policy
  objects allocated so far and a reference is an index into it. The contents of a policy
  object are opaque to this module (type variable \<open>'q\<close>): it only passes references on
  and deep-copies the object.
\<close>

type_synonym addr = nat

text \<open>
  Exceptions leaving a function. \<open>Critical msg\<close> is the exception of
  \<^verbatim>\<open>Logger.critical(msg)\<close>.
\<close>

datatype error = TypeError | IndexError | AssertionError | Critical string

text \<open>
  \<^verbatim>\<open>AttributeQuantizationConfig\<close>: the weight sub-config of one attribute of an
  \<^verbatim>\<open>OpQuantizationConfig\<close>. The source reads \<^verbatim>\<open>weights_quantization_method\<close>; the other
  fields are the ones the candidate's weights config carries.
\<close>

record AttributeQuantizationConfig =
  weights_quantization_method :: qmethod
  attr_weights_n_bits :: int
  attr_weights_per_channel_threshold :: bool
  attr_enable_weights_quantization :: bool

record OpQuantizationConfig =
  default_weight_attr_config :: AttributeQuantizationConfig
  attr_weights_configs_mapping :: "attr \<rightharpoonup> AttributeQuantizationConfig"
  activation_quantization_method :: qmethod
  op_activation_n_bits :: int
  op_enable_activation_quantization :: bool

record QuantizationConfigOptions =
  quantization_config_list :: "OpQuantizationConfig list"
  base_config :: OpQuantizationConfig

record NodeWeightsQuantizationConfig =
  weights_quantization_fn :: fn
  weights_quantization_params_fn :: fn
  weights_channels_axis :: int
  node_weights_quantization_method :: qmethod
  weights_n_bits :: int
  weights_per_channel_threshold :: bool
  enable_weights_quantization :: bool

record NodeActivationQuantizationConfig =
  activation_quantization_fn :: fn
  activation_quantization_params_fn :: fn
  node_activation_quantization_method :: qmethod
  activation_n_bits :: int
  enable_activation_quantization :: bool

text \<open>
  A candidate pairs a weights config and an activation config. \<open>qc\<close> records the
  reference to the policy object that was passed to the candidate's constructor.
\<close>

record CandidateNodeQuantizationConfig =
  qc :: addr
  weights_quantization_cfg :: NodeWeightsQuantizationConfig
  activation_quantization_cfg :: NodeActivationQuantizationConfig

text \<open>
  \<^verbatim>\<open>FrameworkInfo\<close>, as far as this module reads it. The class is defined in the module
  \<^verbatim>\<open>framework_info\<close>, outside this file. Its two mappings are read with \<^verbatim>\<open>.get(key)\<close>,
  a lookup that may give \<^verbatim>\<open>None\<close>: the source tests the activation quantizer for
  \<^verbatim>\<open>None\<close>, and subscripts the kernel channels without a test. A mapping that answers
  for every key is the case in which the lookup never gives \<^verbatim>\<open>None\<close>.
  \<^verbatim>\<open>get_kernel_op_attributes\<close> is a method.
\<close>

record FrameworkInfo =
  kernel_channels_mapping :: "ntype \<rightharpoonup> int list"
  get_kernel_op_attributes :: "ntype \<Rightarrow> attr list"
  activation_quantizer_mapping :: "qmethod \<rightharpoonup> fn"

text \<open>
  The three selector functions imported from \<^verbatim>\<open>quantization_fn_selection\<close> and
  \<^verbatim>\<open>quantization_params_fn_selection\<close> are parameters. Each may fail by itself with a
  message (\<open>Inl msg\<close>, a call of \<^verbatim>\<open>Logger.critical(msg)\<close> inside the selector); the source
  tests the result of \<^verbatim>\<open>get_weights_quantization_fn\<close> against \<^verbatim>\<open>None\<close>, so that one may
  also return \<^verbatim>\<open>None\<close>.
\<close>

record selectors =
  get_weights_quantization_fn :: "qmethod \<Rightarrow> string + fn option"
  get_weights_quantization_params_fn :: "qmethod \<Rightarrow> string + fn"
  get_activation_quantization_params_fn :: "qmethod \<Rightarrow> string + fn"

type_synonym TargetPlatformCapabilities = "ntype \<Rightarrow> QuantizationConfigOptions"

text \<open>
  \<^verbatim>\<open>BaseNode\<close>: \<open>node_type\<close> is the attribute \<^verbatim>\<open>type\<close>; the two structural queries are
  fields holding their answers.
\<close>

record BaseNode =
  node_type :: ntype
  has_weights_to_quantize :: "FrameworkInfo \<Rightarrow> bool"
  get_has_activation :: bool
  candidates_quantization_cfg :: "CandidateNodeQuantizationConfig list"

record Graph =
  nodes :: "BaseNode list"
  fw_info :: FrameworkInfo
  tpc :: TargetPlatformCapabilities

text \<open>
  The outcome of a function that mutates its arguments in place: the state it leaves
  behind, and the exception if one was raised.
\<close>

datatype 's outcome = Done 's | Raised error 's

section \<open>Operations\<close>

text \<open>
  Modelled from the spec: \<^verbatim>\<open>Logger.critical\<close> is defined in the module
  \<^verbatim>\<open>model_compression_toolkit.logger\<close>, outside this file; a lookup failure is fatal and
  aborts synthesis with the message, so the call raises.
\<close>

definition Logger_critical :: "string \<Rightarrow> error + 'a" where
  "Logger_critical msg = Inl (Critical msg)"

definition get_qco :: "BaseNode \<Rightarrow> TargetPlatformCapabilities \<Rightarrow> QuantizationConfigOptions" where
  "get_qco node t = t (node_type node)"

text \<open>
  Modelled from the spec: the class \<^verbatim>\<open>QuantizationConfigOptions\<close> is defined in the module
  \<^verbatim>\<open>op_quantization_config\<close>, outside this file. Its options are an ordered list of
  configs with one of them designated as the base config.
\<close>

definition QuantizationConfigOptions_valid :: "QuantizationConfigOptions \<Rightarrow> bool" where
  "QuantizationConfigOptions_valid opts \<longleftrightarrow>
     base_config opts \<in> set (quantization_config_list opts)"

text \<open>
  \<^verbatim>\<open>copy.deepcopy(qc)\<close>: a new object with the contents of the old one. A reference
  always points to an allocated object, \<open>r < length s\<close>; the properties that read the
  copy's contents assume it.
\<close>

definition deepcopy :: "addr \<Rightarrow> 'q list \<Rightarrow> addr \<times> 'q list" where
  "deepcopy r s = (length s, s @ [s ! r])"

text \<open>
  Modelled from the spec: the constructor of \<^verbatim>\<open>CandidateNodeQuantizationConfig\<close> is
  defined in the module \<^verbatim>\<open>candidate_node_quantization_config\<close>, outside this file. It
  builds the paired weights and activation configs, which carry the resolved bit-widths,
  the methods, the channel axis, the per-channel flag, the enable flags and the bound
  functions as values of their own; the policy object the constructor receives is the
  candidate's own in the mixed-precision branch, where each candidate gets a fresh copy.
\<close>

definition CandidateNodeQuantizationConfig_init ::
  "addr \<Rightarrow> OpQuantizationConfig \<Rightarrow> fn \<Rightarrow> fn \<Rightarrow> fn \<Rightarrow> fn \<Rightarrow> int \<Rightarrow>
   AttributeQuantizationConfig \<Rightarrow> CandidateNodeQuantizationConfig" where
  "CandidateNodeQuantizationConfig_init q op_cfg a_fn a_params_fn w_fn w_params_fn axis weights_cfg =
     \<lparr>qc = q,
      weights_quantization_cfg =
        \<lparr>weights_quantization_fn = w_fn,
         weights_quantization_params_fn = w_params_fn,
         weights_channels_axis = axis,
         node_weights_quantization_method = weights_quantization_method weights_cfg,
         weights_n_bits = attr_weights_n_bits weights_cfg,
         weights_per_channel_threshold = attr_weights_per_channel_threshold weights_cfg,
         enable_weights_quantization = attr_enable_weights_quantization weights_cfg\<rparr>,
      activation_quantization_cfg =
        \<lparr>activation_quantization_fn = a_fn,
         activation_quantization_params_fn = a_params_fn,
         node_activation_quantization_method = activation_quantization_method op_cfg,
         activation_n_bits = op_activation_n_bits op_cfg,
         enable_activation_quantization = op_enable_activation_quantization op_cfg\<rparr>\<rparr>"

text \<open>
  \<^verbatim>\<open>op_cfg.attr_weights_configs_mapping.get(kernel_attr, op_cfg.default_weight_attr_config)\<close>
\<close>

definition weights_cfg_of :: "OpQuantizationConfig \<Rightarrow> attr \<Rightarrow> AttributeQuantizationConfig" where
  "weights_cfg_of op_cfg kernel_attr =
     (case attr_weights_configs_mapping op_cfg kernel_attr of
        None \<Rightarrow> default_weight_attr_config op_cfg
      | Some c \<Rightarrow> c)"

text \<open>
  \<^verbatim>\<open>_create_node_single_candidate_qc\<close> (an Isabelle name cannot start with an underscore).
  The steps follow the source in order; each \<open>Inl\<close> result is an exception leaving the
  function.
\<close>

definition create_node_single_candidate_qc ::
  "addr \<Rightarrow> FrameworkInfo \<Rightarrow> selectors \<Rightarrow> int \<Rightarrow> OpQuantizationConfig \<Rightarrow> attr \<Rightarrow>
   error + CandidateNodeQuantizationConfig" where
  "create_node_single_candidate_qc q fw sel weight_channel_axis op_cfg kernel_attr =
     (let weights_cfg = weights_cfg_of op_cfg kernel_attr in
      case get_weights_quantization_fn sel (weights_quantization_method weights_cfg) of
        Inl msg \<Rightarrow> Logger_critical msg
      | Inr None \<Rightarrow>
          Logger_critical
            (''Unknown quantization method for weights for quantizing attribute: '' @ kernel_attr)
      | Inr (Some w_fn) \<Rightarrow>
         (case get_weights_quantization_params_fn sel (weights_quantization_method weights_cfg) of
            Inl msg \<Rightarrow> Logger_critical msg
          | Inr w_params_fn \<Rightarrow>
             (case activation_quantizer_mapping fw (activation_quantization_method op_cfg) of
                None \<Rightarrow> Logger_critical ''Unknown quantization method for activations''
              | Some a_fn \<Rightarrow>
                 (case get_activation_quantization_params_fn sel
                         (activation_quantization_method op_cfg) of
                    Inl msg \<Rightarrow> Logger_critical msg
                  | Inr a_params_fn \<Rightarrow>
                      Inr (CandidateNodeQuantizationConfig_init q op_cfg a_fn a_params_fn
                             w_fn w_params_fn weight_channel_axis weights_cfg)))))"

text \<open>
  The loop of the mixed-precision branch: for each \<^verbatim>\<open>op_cfg\<close>, deep-copy the policy and
  append the candidate built from the copy. The store is returned also when a candidate's
  construction raises: the copies made so far stay allocated.
\<close>

fun mp_loop ::
  "addr \<Rightarrow> FrameworkInfo \<Rightarrow> selectors \<Rightarrow> int \<Rightarrow> attr \<Rightarrow> OpQuantizationConfig list \<Rightarrow>
   CandidateNodeQuantizationConfig list \<Rightarrow> 'q list \<Rightarrow>
   (error + CandidateNodeQuantizationConfig list) \<times> 'q list" where
  "mp_loop q fw sel axis kernel_attr [] candidates s = (Inr candidates, s)"
| "mp_loop q fw sel axis kernel_attr (op_cfg # rest) candidates s =
     (let (candidate_nbits_qc, s') = deepcopy q s in
      case create_node_single_candidate_qc candidate_nbits_qc fw sel axis op_cfg kernel_attr of
        Inl e \<Rightarrow> (Inl e, s')
      | Inr c \<Rightarrow> mp_loop q fw sel axis kernel_attr rest (candidates @ [c]) s')"

text \<open>
  The sort key of the source,
  \<^verbatim>\<open>(c.weights_quantization_cfg.weights_n_bits, c.activation_quantization_cfg.activation_n_bits)\<close>;
  tuples compare lexicographically.
\<close>

definition sort_key_of :: "CandidateNodeQuantizationConfig \<Rightarrow> int \<times> int" where
  "sort_key_of c =
     (weights_n_bits (weights_quantization_cfg c), activation_n_bits (activation_quantization_cfg c))"

text \<open>
  \<^verbatim>\<open>list.sort(key=..., reverse=True)\<close>: a stable sort in descending order of the key, that
  is, the reverse of the stable ascending sort of the reversed list.
\<close>

definition sort_reverse :: "('a \<Rightarrow> 'k::linorder) \<Rightarrow> 'a list \<Rightarrow> 'a list" where
  "sort_reverse f xs = rev (sort_key f (rev xs))"

text \<open>\<^verbatim>\<open>_create_node_candidates_qc\<close>\<close>

definition create_node_candidates_qc ::
  "addr \<Rightarrow> FrameworkInfo \<Rightarrow> selectors \<Rightarrow> int \<Rightarrow> QuantizationConfigOptions \<Rightarrow> ntype \<Rightarrow> bool \<Rightarrow>
   'q list \<Rightarrow> (error + CandidateNodeQuantizationConfig list) \<times> 'q list" where
  "create_node_candidates_qc q fw sel weight_channel_axis node_qc_options ty mixed_precision_enable s =
     (case get_kernel_op_attributes fw ty of
        [kernel_attr] \<Rightarrow>
          if mixed_precision_enable then
            (case mp_loop q fw sel weight_channel_axis kernel_attr
                    (quantization_config_list node_qc_options) [] s of
               (Inl e, s') \<Rightarrow> (Inl e, s')
             | (Inr candidates, s') \<Rightarrow> (Inr (sort_reverse sort_key_of candidates), s'))
          else
            (case create_node_single_candidate_qc q fw sel weight_channel_axis
                    (base_config node_qc_options) kernel_attr of
               Inl e \<Rightarrow> (Inl e, s)
             | Inr c \<Rightarrow> (Inr [c], s))
      | _ \<Rightarrow> (Inl AssertionError, s))"

text \<open>The body of the loop over the attached candidates: the enable flags are and-ed
  with the node's structural properties.\<close>

definition reconcile ::
  "BaseNode \<Rightarrow> FrameworkInfo \<Rightarrow> CandidateNodeQuantizationConfig \<Rightarrow> CandidateNodeQuantizationConfig" where
  "reconcile node fw candidate_qc =
     candidate_qc
       \<lparr>weights_quantization_cfg :=
          (weights_quantization_cfg candidate_qc)
            \<lparr>enable_weights_quantization :=
               enable_weights_quantization (weights_quantization_cfg candidate_qc) \<and>
               has_weights_to_quantize node fw\<rparr>,
        activation_quantization_cfg :=
          (activation_quantization_cfg candidate_qc)
            \<lparr>enable_activation_quantization :=
               enable_activation_quantization (activation_quantization_cfg candidate_qc) \<and>
               get_has_activation node\<rparr>\<rparr>"

text \<open>
  \<^verbatim>\<open>set_quantization_configs_to_node\<close>. Subscripting \<^verbatim>\<open>None\<close> raises \<^verbatim>\<open>TypeError\<close>,
  subscripting an empty sequence raises \<^verbatim>\<open>IndexError\<close>. The node is assigned its
  candidates only after \<^verbatim>\<open>_create_node_candidates_qc\<close> has returned.
\<close>

definition set_quantization_configs_to_node ::
  "BaseNode \<Rightarrow> addr \<Rightarrow> FrameworkInfo \<Rightarrow> TargetPlatformCapabilities \<Rightarrow> selectors \<Rightarrow> bool \<Rightarrow>
   'q list \<Rightarrow> (BaseNode \<times> 'q list) outcome" where
  "set_quantization_configs_to_node node quant_config fw t sel mixed_precision_enable s =
     (let node_qc_options = get_qco node t in
      case kernel_channels_mapping fw (node_type node) of
        None \<Rightarrow> Raised TypeError (node, s)
      | Some [] \<Rightarrow> Raised IndexError (node, s)
      | Some (weight_channel_axis # _) \<Rightarrow>
         (case create_node_candidates_qc quant_config fw sel weight_channel_axis node_qc_options
                 (node_type node) mixed_precision_enable s of
            (Inl e, s') \<Rightarrow> Raised e (node, s')
          | (Inr candidates, s') \<Rightarrow>
              Done (node\<lparr>candidates_quantization_cfg := map (reconcile node fw) candidates\<rparr>, s')))"

text \<open>The loop of \<^verbatim>\<open>set_quantization_configuration_to_graph\<close> over the nodes: it stops
  at the first node that raises, leaving the nodes before it configured.\<close>

fun set_nodes ::
  "BaseNode list \<Rightarrow> addr \<Rightarrow> FrameworkInfo \<Rightarrow> TargetPlatformCapabilities \<Rightarrow> selectors \<Rightarrow> bool \<Rightarrow>
   'q list \<Rightarrow> (BaseNode list \<times> 'q list) outcome" where
  "set_nodes [] quant_config fw t sel mp s = Done ([], s)"
| "set_nodes (n # ns) quant_config fw t sel mp s =
     (case set_quantization_configs_to_node n quant_config fw t sel mp s of
        Raised e (n', s') \<Rightarrow> Raised e (n' # ns, s')
      | Done (n', s') \<Rightarrow>
         (case set_nodes ns quant_config fw t sel mp s' of
            Raised e (ns', s'') \<Rightarrow> Raised e (n' # ns', s'')
          | Done (ns', s'') \<Rightarrow> Done (n' # ns', s'')))"

definition set_quantization_configuration_to_graph ::
  "Graph \<Rightarrow> addr \<Rightarrow> selectors \<Rightarrow> bool \<Rightarrow> 'q list \<Rightarrow> (Graph \<times> 'q list) outcome" where
  "set_quantization_configuration_to_graph graph quant_config sel mixed_precision_enable s =
     (case set_nodes (nodes graph) quant_config (fw_info graph) (tpc graph) sel
             mixed_precision_enable s of
        Raised e (ns, s') \<Rightarrow> Raised e (graph\<lparr>nodes := ns\<rparr>, s')
      | Done (ns, s') \<Rightarrow> Done (graph\<lparr>nodes := ns\<rparr>, s'))"

section \<open>A concrete framework, platform and node\<close>

text \<open>
  A convolution node whose platform offers the weights/activation bit-width pairs
  (8,8), (4,8), (8,4), (2,2), with (8,8) as base config; one known quantization method.
\<close>

definition ex_attr :: "int \<Rightarrow> AttributeQuantizationConfig" where
  "ex_attr w =
     \<lparr>weights_quantization_method = ''POWER_OF_TWO'',
      attr_weights_n_bits = w,
      attr_weights_per_channel_threshold = True,
      attr_enable_weights_quantization = True\<rparr>"

definition ex_op :: "int \<Rightarrow> int \<Rightarrow> OpQuantizationConfig" where
  "ex_op w a =
     \<lparr>default_weight_attr_config = (ex_attr 8)\<lparr>attr_enable_weights_quantization := False\<rparr>,
      attr_weights_configs_mapping = [''kernel'' \<mapsto> ex_attr w],
      activation_quantization_method = ''POWER_OF_TWO'',
      op_activation_n_bits = a,
      op_enable_activation_quantization = True\<rparr>"

definition ex_options :: QuantizationConfigOptions where
  "ex_options =
     \<lparr>quantization_config_list = [ex_op 8 8, ex_op 4 8, ex_op 8 4, ex_op 2 2],
      base_config = ex_op 8 8\<rparr>"

definition ex_fw :: FrameworkInfo where
  "ex_fw =
     \<lparr>kernel_channels_mapping = [''Conv2D'' \<mapsto> [3, 2]],
      get_kernel_op_attributes = (\<lambda>ty. if ty = ''Conv2D'' then [''kernel''] else []),
      activation_quantizer_mapping = [''POWER_OF_TWO'' \<mapsto> ''power_of_two_quantization'']\<rparr>"

definition ex_sel :: selectors where
  "ex_sel =
     \<lparr>get_weights_quantization_fn =
        (\<lambda>m. Inr (if m = ''POWER_OF_TWO'' then Some ''power_of_two_quantizer'' else None)),
      get_weights_quantization_params_fn = (\<lambda>m. Inr ''power_of_two_selection_tensor''),
      get_activation_quantization_params_fn = (\<lambda>m. Inr ''power_of_two_selection_histogram'')\<rparr>"

definition ex_node :: BaseNode where
  "ex_node =
     \<lparr>node_type = ''Conv2D'',
      has_weights_to_quantize = (\<lambda>fw. True),
      get_has_activation = True,
      candidates_quantization_cfg = []\<rparr>"

definition ex_tpc :: TargetPlatformCapabilities where
  "ex_tpc = (\<lambda>ty. ex_options)"

text \<open>A convolution node that has no weights to quantize.\<close>

definition ex_node_nw :: BaseNode where
  "ex_node_nw = ex_node\<lparr>has_weights_to_quantize := (\<lambda>fw. False)\<rparr>"

text \<open>A platform whose config list and base config name an activation method the
  framework info does not know.\<close>

definition ex_op_unknown_act :: OpQuantizationConfig where
  "ex_op_unknown_act = (ex_op 8 8)\<lparr>activation_quantization_method := ''LUT_POT_QUANTIZER''\<rparr>"

definition ex_tpc_unknown_act :: TargetPlatformCapabilities where
  "ex_tpc_unknown_act =
     (\<lambda>ty. \<lparr>quantization_config_list = [ex_op 8 8, ex_op_unknown_act],
            base_config = ex_op_unknown_act\<rparr>)"

definition ex_graph :: Graph where
  "ex_graph = \<lparr>nodes = [ex_node], fw_info = ex_fw, tpc = ex_tpc\<rparr>"

text \<open>The candidate synthesized in this framework for the pair \<open>(w, a)\<close> from the policy
  object at \<open>q\<close>.\<close>

definition ex_cand :: "addr \<Rightarrow> int \<Rightarrow> int \<Rightarrow> CandidateNodeQuantizationConfig" where
  "ex_cand q w a =
     CandidateNodeQuantizationConfig_init q (ex_op w a) ''power_of_two_quantization''
       ''power_of_two_selection_histogram'' ''power_of_two_quantizer''
       ''power_of_two_selection_tensor'' 3 (ex_attr w)"

section \<open>Basic facts about the operations\<close>

lemma ex_single:
  "create_node_single_candidate_qc q ex_fw ex_sel 3 (ex_op w a) ''kernel'' = Inr (ex_cand q w a)"
  by (simp add: create_node_single_candidate_qc_def weights_cfg_of_def ex_fw_def ex_sel_def
      ex_op_def ex_attr_def ex_cand_def Let_def)

lemma single_qc:
  "create_node_single_candidate_qc q fw sel axis op_cfg k = Inr c \<Longrightarrow> qc c = q"
  by (auto simp: create_node_single_candidate_qc_def Let_def Logger_critical_def
      CandidateNodeQuantizationConfig_init_def split: sum.splits option.splits)

lemma single_not_assertion:
  "create_node_single_candidate_qc q fw sel axis op_cfg k \<noteq> Inl AssertionError"
  by (auto simp: create_node_single_candidate_qc_def Let_def Logger_critical_def
      split: sum.splits option.splits)

lemma mp_loop_Inr:
  "mp_loop q fw sel axis k ops acc s = (Inr cands, s') \<Longrightarrow>
     \<exists>cs. cands = acc @ cs \<and> length cs = length ops \<and> length s' = length s + length ops \<and>
          (\<forall>i<length ops.
             create_node_single_candidate_qc (length s + i) fw sel axis (ops ! i) k = Inr (cs ! i))"
proof (induction ops arbitrary: acc s)
  case Nil
  then show ?case by simp
next
  case (Cons op_cfg rest)
  from Cons.prems obtain c where
    c: "create_node_single_candidate_qc (length s) fw sel axis op_cfg k = Inr c" and
    r: "mp_loop q fw sel axis k rest (acc @ [c]) (s @ [s ! q]) = (Inr cands, s')"
    by (auto simp: deepcopy_def split: sum.splits)
  from Cons.IH [OF r] obtain cs where
    cs: "cands = (acc @ [c]) @ cs" "length cs = length rest"
      "length s' = length (s @ [s ! q]) + length rest"
      "\<forall>i<length rest. create_node_single_candidate_qc (length (s @ [s ! q]) + i) fw sel axis
          (rest ! i) k = Inr (cs ! i)"
    by blast
  have "\<forall>i<length (op_cfg # rest).
          create_node_single_candidate_qc (length s + i) fw sel axis ((op_cfg # rest) ! i) k =
          Inr ((c # cs) ! i)"
  proof (intro allI impI)
    fix i assume i: "i < length (op_cfg # rest)"
    show "create_node_single_candidate_qc (length s + i) fw sel axis ((op_cfg # rest) ! i) k =
          Inr ((c # cs) ! i)"
    proof (cases i)
      case 0
      then show ?thesis using c by simp
    next
      case (Suc j)
      then show ?thesis using cs(4) i by simp
    qed
  qed
  with cs show ?case by (intro exI [of _ "c # cs"]) simp
qed

lemma mp_loop_store:
  "q < length s \<Longrightarrow>
   \<exists>n. snd (mp_loop q fw sel axis k ops acc s) = s @ replicate n (s ! q) \<and> n \<le> length ops"
proof (induction ops arbitrary: acc s)
  case Nil
  then show ?case by simp
next
  case (Cons op_cfg rest)
  show ?case
  proof (cases "create_node_single_candidate_qc (length s) fw sel axis op_cfg k")
    case (Inl e)
    then show ?thesis by (auto simp: deepcopy_def intro: exI [of _ "Suc 0"])
  next
    case (Inr c)
    have "q < length (s @ [s ! q])" using Cons.prems by simp
    from Cons.IH [OF this, of "acc @ [c]"] obtain n where
      n: "snd (mp_loop q fw sel axis k rest (acc @ [c]) (s @ [s ! q])) =
            (s @ [s ! q]) @ replicate n ((s @ [s ! q]) ! q)" "n \<le> length rest"
      by blast
    have "(s @ [s ! q]) ! q = s ! q" using Cons.prems by (simp add: nth_append)
    with n Inr show ?thesis
      by (auto simp: deepcopy_def replicate_app_Cons_same intro!: exI [of _ "Suc n"])
  qed
qed

lemma mp_loop_not_assertion:
  "fst (mp_loop q fw sel axis k ops acc s) \<noteq> Inl AssertionError"
  by (induction ops arbitrary: acc s)
     (auto simp: deepcopy_def single_not_assertion split: sum.splits)

lemma create_candidates_no_mp:
  "create_node_candidates_qc q fw sel axis opts ty False s = (Inr cands, s') \<Longrightarrow>
     \<exists>k c. get_kernel_op_attributes fw ty = [k] \<and>
       create_node_single_candidate_qc q fw sel axis (base_config opts) k = Inr c \<and>
       cands = [c] \<and> s' = s"
  by (auto simp: create_node_candidates_qc_def split: list.splits sum.splits)

lemma create_candidates_mp:
  "create_node_candidates_qc q fw sel axis opts ty True s = (Inr cands, s') \<Longrightarrow>
     \<exists>k cs. get_kernel_op_attributes fw ty = [k] \<and>
       mp_loop q fw sel axis k (quantization_config_list opts) [] s = (Inr cs, s') \<and>
       cands = sort_reverse sort_key_of cs"
  by (auto simp: create_node_candidates_qc_def split: list.splits sum.splits prod.splits)

lemma node_Done:
  "set_quantization_configs_to_node node q fw t sel mp s = Done (node', s') \<Longrightarrow>
     \<exists>axis rest cands. kernel_channels_mapping fw (node_type node) = Some (axis # rest) \<and>
       create_node_candidates_qc q fw sel axis (get_qco node t) (node_type node) mp s =
         (Inr cands, s') \<and>
       node' = node\<lparr>candidates_quantization_cfg := map (reconcile node fw) cands\<rparr>"
  by (auto simp: set_quantization_configs_to_node_def Let_def
      split: option.splits list.splits sum.splits prod.splits)

lemma reconcile_ex_cand: "reconcile ex_node fw (ex_cand q w a) = ex_cand q w a"
  by (simp add: reconcile_def ex_node_def ex_cand_def CandidateNodeQuantizationConfig_init_def
      ex_attr_def ex_op_def)

lemma ex_fw_attrs: "get_kernel_op_attributes ex_fw ''Conv2D'' = [''kernel'']"
  by (simp add: ex_fw_def)

lemma ex_fw_channels: "kernel_channels_mapping ex_fw ''Conv2D'' = Some [3, 2]"
  by (simp add: ex_fw_def)

lemma ex_node_type: "node_type ex_node = ''Conv2D''"
  by (simp add: ex_node_def)

lemma ex_create_no_mp:
  "create_node_candidates_qc q ex_fw ex_sel 3 ex_options ''Conv2D'' False s =
     (Inr [ex_cand q 8 8], s)"
  by (simp add: create_node_candidates_qc_def ex_fw_attrs ex_single ex_options_def)

lemma ex_node_no_mp:
  "set_quantization_configs_to_node ex_node 0 ex_fw ex_tpc ex_sel False [p] =
     Done (ex_node\<lparr>candidates_quantization_cfg := [ex_cand 0 8 8]\<rparr>, [p])"
  by (simp add: set_quantization_configs_to_node_def get_qco_def ex_tpc_def ex_node_type
      ex_fw_channels ex_create_no_mp reconcile_ex_cand)

lemma sort_key_of_ex_cand: "sort_key_of (ex_cand q w a) = (w, a)"
  by (simp add: sort_key_of_def ex_cand_def CandidateNodeQuantizationConfig_init_def
      ex_attr_def ex_op_def)

lemma ex_mp_loop:
  "mp_loop 0 ex_fw ex_sel 3 ''kernel'' (quantization_config_list ex_options) [] [p] =
     (Inr [ex_cand (Suc 0) 8 8, ex_cand 2 4 8, ex_cand 3 8 4, ex_cand 4 2 2], [p, p, p, p, p])"
  by (simp add: ex_options_def deepcopy_def ex_single) (simp add: eval_nat_numeral)

lemma ex_sorted:
  "sort_reverse sort_key_of [ex_cand (Suc 0) 8 8, ex_cand 2 4 8, ex_cand 3 8 4, ex_cand 4 2 2] =
     [ex_cand (Suc 0) 8 8, ex_cand 3 8 4, ex_cand 2 4 8, ex_cand 4 2 2]"
  by (simp only: sort_reverse_def) (simp add: sort_key_of_ex_cand less_eq_prod_def)

lemma ex_create_mp:
  "create_node_candidates_qc 0 ex_fw ex_sel 3 ex_options ''Conv2D'' True [p] =
     (Inr [ex_cand (Suc 0) 8 8, ex_cand 3 8 4, ex_cand 2 4 8, ex_cand 4 2 2], [p, p, p, p, p])"
  by (simp add: create_node_candidates_qc_def ex_fw_attrs ex_mp_loop ex_sorted)

lemma ex_node_mp:
  "set_quantization_configs_to_node ex_node 0 ex_fw ex_tpc ex_sel True [p] =
     Done (ex_node\<lparr>candidates_quantization_cfg :=
             [ex_cand (Suc 0) 8 8, ex_cand 3 8 4, ex_cand 2 4 8, ex_cand 4 2 2]\<rparr>, [p, p, p, p, p])"
  by (simp add: set_quantization_configs_to_node_def get_qco_def ex_tpc_def ex_node_type
      ex_fw_channels ex_create_mp reconcile_ex_cand)

lemma sort_reverse_set: "set (sort_reverse f xs) = set xs"
  by (simp add: sort_reverse_def)

lemma sort_reverse_length: "length (sort_reverse f xs) = length xs"
  by (simp add: sort_reverse_def)

lemma sort_reverse_sorted: "sorted_wrt (\<lambda>x y. f y \<le> f x) (sort_reverse f xs)"
proof -
  have "sorted (map f (sort_key f (rev xs)))" by (rule sorted_sort_key)
  then have "sorted_wrt (\<lambda>x y. f x \<le> f y) (sort_key f (rev xs))"
    by (simp add: sorted_wrt_map)
  then show ?thesis by (simp add: sort_reverse_def sorted_wrt_rev)
qed

lemma sort_reverse_stable:
  "filter (\<lambda>y. f y = k) (sort_reverse f xs) = filter (\<lambda>y. f y = k) xs"
proof -
  have "filter (\<lambda>y. f y = k) (sort_reverse f xs) =
        rev (filter (\<lambda>y. f y = k) (sort_key f (rev xs)))"
    by (simp add: sort_reverse_def rev_filter)
  also have "\<dots> = rev (filter (\<lambda>y. f y = k) (rev xs))" by (simp only: sort_key_stable)
  also have "\<dots> = filter (\<lambda>y. f y = k) xs" by (simp add: rev_filter)
  finally show ?thesis .
qed

lemma sort_reverse_distinct_map:
  "distinct (map g (sort_reverse f xs)) = distinct (map g xs)"
  by (simp add: distinct_map sort_reverse_set) (simp add: sort_reverse_def)

lemma sort_key_of_reconcile: "sort_key_of (reconcile node fw c) = sort_key_of c"
  by (simp add: sort_key_of_def reconcile_def)


lemma sorted_wrt_adjacent:
  "sorted_wrt P xs \<Longrightarrow> Suc i < length xs \<Longrightarrow> P (xs ! i) (xs ! Suc i)"
  by (simp add: sorted_wrt_iff_nth_less)

lemma enable_reconcile:
  "enable_weights_quantization (weights_quantization_cfg (reconcile node fw c)) =
     (enable_weights_quantization (weights_quantization_cfg c) \<and> has_weights_to_quantize node fw)"
  "enable_activation_quantization (activation_quantization_cfg (reconcile node fw c)) =
     (enable_activation_quantization (activation_quantization_cfg c) \<and> get_has_activation node)"
  by (simp_all add: reconcile_def)

lemma ex_node_nw_type: "node_type ex_node_nw = ''Conv2D''"
  by (simp add: ex_node_nw_def ex_node_def)

lemma ex_node_nw_mp:
  "set_quantization_configs_to_node ex_node_nw 0 ex_fw ex_tpc ex_sel True [p] =
     Done (ex_node_nw\<lparr>candidates_quantization_cfg :=
             map (reconcile ex_node_nw ex_fw)
               [ex_cand (Suc 0) 8 8, ex_cand 3 8 4, ex_cand 2 4 8, ex_cand 4 2 2]\<rparr>,
           [p, p, p, p, p])"
  by (simp add: set_quantization_configs_to_node_def get_qco_def ex_tpc_def ex_node_nw_type
      ex_fw_channels ex_create_mp)

lemma mp_loop_qcs:
  assumes "mp_loop q fw sel axis k ops [] s = (Inr cs, s')"
  shows "map qc cs = [length s ..< length s + length ops]"
proof -
  from mp_loop_Inr [OF assms] have
    len: "length cs = length ops" and
    each: "\<forall>i<length ops.
      create_node_single_candidate_qc (length s + i) fw sel axis (ops ! i) k = Inr (cs ! i)"
    by auto
  show ?thesis
  proof (rule nth_equalityI)
    show "length (map qc cs) = length [length s ..< length s + length ops]"
      using len by simp
  next
    fix i assume "i < length (map qc cs)"
    then have i: "i < length ops" using len by simp
    with each have "create_node_single_candidate_qc (length s + i) fw sel axis (ops ! i) k =
      Inr (cs ! i)" by blast
    from single_qc [OF this] i len
    show "map qc cs ! i = [length s ..< length s + length ops] ! i" by simp
  qed
qed

lemma mp_loop_store_Inr:
  assumes "q < length s" and "mp_loop q fw sel axis k ops acc s = (Inr cs, s')"
  shows "s' = s @ replicate (length ops) (s ! q)"
proof -
  from mp_loop_store [OF assms(1), of fw sel axis k ops acc] assms(2) obtain n where
    n: "s' = s @ replicate n (s ! q)" by auto
  from mp_loop_Inr [OF assms(2)] have "length s' = length s + length ops" by auto
  with n have "n = length ops" by simp
  with n show ?thesis by simp
qed

lemma single_error_critical:
  "create_node_single_candidate_qc q fw sel axis op_cfg k = Inl e \<Longrightarrow> \<exists>msg. e = Critical msg"
  by (auto simp: create_node_single_candidate_qc_def Let_def Logger_critical_def
      split: sum.splits option.splits)

lemma single_error_indep:
  "create_node_single_candidate_qc q fw sel axis op_cfg k = Inl e \<Longrightarrow>
   create_node_single_candidate_qc q' fw sel axis op_cfg k = Inl e"
  by (auto simp: create_node_single_candidate_qc_def Let_def Logger_critical_def
      split: sum.splits option.splits)

lemma single_unknown_weights:
  "get_weights_quantization_fn sel (weights_quantization_method (weights_cfg_of op_cfg k)) = Inr None \<Longrightarrow>
   create_node_single_candidate_qc q fw sel axis op_cfg k =
     Inl (Critical (''Unknown quantization method for weights for quantizing attribute: '' @ k))"
  by (simp add: create_node_single_candidate_qc_def Let_def Logger_critical_def)

lemma single_unknown_activation:
  "get_weights_quantization_fn sel (weights_quantization_method (weights_cfg_of op_cfg k)) =
     Inr (Some w_fn) \<Longrightarrow>
   get_weights_quantization_params_fn sel (weights_quantization_method (weights_cfg_of op_cfg k)) =
     Inr w_params_fn \<Longrightarrow>
   activation_quantizer_mapping fw (activation_quantization_method op_cfg) = None \<Longrightarrow>
   create_node_single_candidate_qc q fw sel axis op_cfg k =
     Inl (Critical ''Unknown quantization method for activations'')"
  by (simp add: create_node_single_candidate_qc_def Let_def Logger_critical_def)

lemma ex_single_unknown_act:
  "create_node_single_candidate_qc q ex_fw ex_sel 3 ex_op_unknown_act ''kernel'' =
     Inl (Critical ''Unknown quantization method for activations'')"
  by (simp add: create_node_single_candidate_qc_def weights_cfg_of_def ex_fw_def ex_sel_def
      ex_op_unknown_act_def ex_op_def ex_attr_def Let_def Logger_critical_def)

lemma ex_node_unknown_act:
  "set_quantization_configs_to_node ex_node 0 ex_fw ex_tpc_unknown_act ex_sel False [p] =
     Raised (Critical ''Unknown quantization method for activations'') (ex_node, [p])"
  by (simp add: set_quantization_configs_to_node_def get_qco_def ex_tpc_unknown_act_def
      ex_node_type ex_fw_channels create_node_candidates_qc_def ex_fw_attrs ex_single_unknown_act)

lemma node_candidates_length:
  assumes "set_quantization_configs_to_node node q fw t sel mp s = Done (node', s')"
  shows "length (candidates_quantization_cfg node') =
           (if mp then length (quantization_config_list (get_qco node t)) else 1)"
proof -
  from node_Done [OF assms] obtain axis rest cands where
    c: "create_node_candidates_qc q fw sel axis (get_qco node t) (node_type node) mp s =
          (Inr cands, s')" and
    n: "node' = node\<lparr>candidates_quantization_cfg := map (reconcile node fw) cands\<rparr>"
    by blast
  show ?thesis
  proof (cases mp)
    case True
    with c create_candidates_mp [of q fw sel axis "get_qco node t" "node_type node" s cands s']
    obtain k cs where
      l: "mp_loop q fw sel axis k (quantization_config_list (get_qco node t)) [] s = (Inr cs, s')"
      and e: "cands = sort_reverse sort_key_of cs" by auto
    from mp_loop_Inr [OF l] have "length cs = length (quantization_config_list (get_qco node t))"
      by auto
    with True n e show ?thesis by (simp add: sort_reverse_length)
  next
    case False
    with c create_candidates_no_mp [of q fw sel axis "get_qco node t" "node_type node" s cands s']
    have "length cands = 1" by auto
    with False n show ?thesis by simp
  qed
qed

lemma set_nodes_Done:
  fixes s :: "'q list"
  shows "set_nodes ns q fw t sel mp s = Done (ns', s') \<Longrightarrow>
   list_all2 (\<lambda>n n'. \<exists>(s0::'q list) s1.
       set_quantization_configs_to_node n q fw t sel mp s0 = Done (n', s1)) ns ns'"
proof (induction ns arbitrary: s ns')
  case Nil
  then show ?case by simp
next
  case (Cons n ns)
  from Cons.prems obtain n' s1 rest where
    h: "set_quantization_configs_to_node n q fw t sel mp s = Done (n', s1)" and
    r: "set_nodes ns q fw t sel mp s1 = Done (rest, s')" and
    e: "ns' = n' # rest"
    by (auto split: outcome.splits prod.splits)
  from Cons.IH [OF r] h e show ?case by (auto intro: exI [of _ s])
qed

lemma ex_graph_result:
  "set_quantization_configuration_to_graph ex_graph 0 ex_sel True [p] =
     Done (ex_graph\<lparr>nodes :=
             [ex_node\<lparr>candidates_quantization_cfg :=
                [ex_cand (Suc 0) 8 8, ex_cand 3 8 4, ex_cand 2 4 8, ex_cand 4 2 2]\<rparr>]\<rparr>,
           [p, p, p, p, p])"
  by (simp add: set_quantization_configuration_to_graph_def ex_graph_def ex_node_mp)

text \<open>What a synthesized candidate carries, with the weight sub-config resolution written out.\<close>

lemma single_fields:
  assumes "create_node_single_candidate_qc q fw sel axis op_cfg k = Inr c"
  shows "qc c = q"
    and "weights_channels_axis (weights_quantization_cfg c) = axis"
    and "weights_n_bits (weights_quantization_cfg c) =
           attr_weights_n_bits (case attr_weights_configs_mapping op_cfg k of
              None \<Rightarrow> default_weight_attr_config op_cfg | Some a \<Rightarrow> a)"
    and "node_weights_quantization_method (weights_quantization_cfg c) =
           weights_quantization_method (case attr_weights_configs_mapping op_cfg k of
              None \<Rightarrow> default_weight_attr_config op_cfg | Some a \<Rightarrow> a)"
    and "weights_per_channel_threshold (weights_quantization_cfg c) =
           attr_weights_per_channel_threshold (case attr_weights_configs_mapping op_cfg k of
              None \<Rightarrow> default_weight_attr_config op_cfg | Some a \<Rightarrow> a)"
    and "enable_weights_quantization (weights_quantization_cfg c) =
           attr_enable_weights_quantization (case attr_weights_configs_mapping op_cfg k of
              None \<Rightarrow> default_weight_attr_config op_cfg | Some a \<Rightarrow> a)"
    and "get_weights_quantization_fn sel
           (weights_quantization_method (case attr_weights_configs_mapping op_cfg k of
              None \<Rightarrow> default_weight_attr_config op_cfg | Some a \<Rightarrow> a)) =
         Inr (Some (weights_quantization_fn (weights_quantization_cfg c)))"
    and "get_weights_quantization_params_fn sel
           (weights_quantization_method (case attr_weights_configs_mapping op_cfg k of
              None \<Rightarrow> default_weight_attr_config op_cfg | Some a \<Rightarrow> a)) =
         Inr (weights_quantization_params_fn (weights_quantization_cfg c))"
    and "activation_n_bits (activation_quantization_cfg c) = op_activation_n_bits op_cfg"
    and "node_activation_quantization_method (activation_quantization_cfg c) =
           activation_quantization_method op_cfg"
    and "enable_activation_quantization (activation_quantization_cfg c) =
           op_enable_activation_quantization op_cfg"
    and "activation_quantizer_mapping fw (activation_quantization_method op_cfg) =
           Some (activation_quantization_fn (activation_quantization_cfg c))"
    and "get_activation_quantization_params_fn sel (activation_quantization_method op_cfg) =
           Inr (activation_quantization_params_fn (activation_quantization_cfg c))"
  using assms
  by (auto simp: create_node_single_candidate_qc_def weights_cfg_of_def Let_def
      Logger_critical_def CandidateNodeQuantizationConfig_init_def
      split: sum.splits option.splits)

lemma reconcile_fields:
  "qc (reconcile node fw c) = qc c"
  "weights_channels_axis (weights_quantization_cfg (reconcile node fw c)) =
     weights_channels_axis (weights_quantization_cfg c)"
  "weights_n_bits (weights_quantization_cfg (reconcile node fw c)) =
     weights_n_bits (weights_quantization_cfg c)"
  "node_weights_quantization_method (weights_quantization_cfg (reconcile node fw c)) =
     node_weights_quantization_method (weights_quantization_cfg c)"
  "weights_per_channel_threshold (weights_quantization_cfg (reconcile node fw c)) =
     weights_per_channel_threshold (weights_quantization_cfg c)"
  "weights_quantization_fn (weights_quantization_cfg (reconcile node fw c)) =
     weights_quantization_fn (weights_quantization_cfg c)"
  "weights_quantization_params_fn (weights_quantization_cfg (reconcile node fw c)) =
     weights_quantization_params_fn (weights_quantization_cfg c)"
  "activation_n_bits (activation_quantization_cfg (reconcile node fw c)) =
     activation_n_bits (activation_quantization_cfg c)"
  "node_activation_quantization_method (activation_quantization_cfg (reconcile node fw c)) =
     node_activation_quantization_method (activation_quantization_cfg c)"
  "activation_quantization_fn (activation_quantization_cfg (reconcile node fw c)) =
     activation_quantization_fn (activation_quantization_cfg c)"
  "activation_quantization_params_fn (activation_quantization_cfg (reconcile node fw c)) =
     activation_quantization_params_fn (activation_quantization_cfg c)"
  by (simp_all add: reconcile_def)

lemma ex_cand_fields:
  "qc (ex_cand q w a) = q"
  "weights_n_bits (weights_quantization_cfg (ex_cand q w a)) = w"
  "activation_n_bits (activation_quantization_cfg (ex_cand q w a)) = a"
  "enable_weights_quantization (weights_quantization_cfg (ex_cand q w a)) = True"
  "enable_activation_quantization (activation_quantization_cfg (ex_cand q w a)) = True"
  by (simp_all add: ex_cand_def CandidateNodeQuantizationConfig_init_def ex_attr_def ex_op_def)

lemma single_success_indep:
  "create_node_single_candidate_qc q fw sel axis op_cfg k = Inr c \<Longrightarrow>
   create_node_single_candidate_qc q' fw sel axis op_cfg k = Inr (c\<lparr>qc := q'\<rparr>)"
  by (auto simp: create_node_single_candidate_qc_def Let_def Logger_critical_def
      CandidateNodeQuantizationConfig_init_def split: sum.splits option.splits)

lemma mp_loop_first_failure:
  "i < length ops \<Longrightarrow>
   \<forall>j<i. \<exists>c. create_node_single_candidate_qc q0 fw sel axis (ops ! j) k = Inr c \<Longrightarrow>
   create_node_single_candidate_qc q0 fw sel axis (ops ! i) k = Inl e \<Longrightarrow>
   \<exists>s'. mp_loop q fw sel axis k ops acc s = (Inl e, s')"
proof (induction ops arbitrary: i acc s)
  case Nil
  then show ?case by simp
next
  case (Cons a rest)
  show ?case
  proof (cases i)
    case 0
    with Cons.prems(3) have "create_node_single_candidate_qc q0 fw sel axis a k = Inl e" by simp
    from single_error_indep [OF this, of "length s"] show ?thesis by (simp add: deepcopy_def)
  next
    case (Suc j)
    with Cons.prems(2) obtain c where "create_node_single_candidate_qc q0 fw sel axis a k = Inr c"
      by fastforce
    from single_success_indep [OF this, of "length s"] have
      a: "create_node_single_candidate_qc (length s) fw sel axis a k = Inr (c\<lparr>qc := length s\<rparr>)" .
    have 1: "j < length rest" using Cons.prems(1) Suc by simp
    have 2: "\<forall>j'<j. \<exists>c. create_node_single_candidate_qc q0 fw sel axis (rest ! j') k = Inr c"
    proof (intro allI impI)
      fix j' assume "j' < j"
      then have "Suc j' < i" using Suc by simp
      with Cons.prems(2) have
        "\<exists>c. create_node_single_candidate_qc q0 fw sel axis ((a # rest) ! Suc j') k = Inr c"
        by blast
      then show "\<exists>c. create_node_single_candidate_qc q0 fw sel axis (rest ! j') k = Inr c"
        by simp
    qed
    have 3: "create_node_single_candidate_qc q0 fw sel axis (rest ! j) k = Inl e"
      using Cons.prems(3) Suc by simp
    from Cons.IH [OF 1 2 3] a show ?thesis by (simp add: deepcopy_def)
  qed
qed

lemma create_candidates_first_failure:
  assumes "get_kernel_op_attributes fw ty = [k]"
    and "ops = (if mp then quantization_config_list opts else [base_config opts])"
    and "i < length ops"
    and "\<forall>j<i. \<exists>c. create_node_single_candidate_qc q fw sel axis (ops ! j) k = Inr c"
    and "create_node_single_candidate_qc q fw sel axis (ops ! i) k = Inl e"
  shows "\<exists>s'. create_node_candidates_qc q fw sel axis opts ty mp s = (Inl e, s') \<and>
              (\<not> mp \<longrightarrow> s' = s)"
proof (cases mp)
  case True
  with assms(2) have o: "ops = quantization_config_list opts" by simp
  from mp_loop_first_failure [OF assms(3) assms(4) assms(5), of q "[]" s] obtain s' where
    "mp_loop q fw sel axis k ops [] s = (Inl e, s')" by blast
  with True o assms(1) show ?thesis by (simp add: create_node_candidates_qc_def)
next
  case False
  with assms(2) assms(3) have "ops ! i = base_config opts" by simp
  with assms(5) False assms(1) show ?thesis by (simp add: create_node_candidates_qc_def)
qed

lemma ex_node_unknown_act_mp:
  "set_quantization_configs_to_node ex_node 0 ex_fw ex_tpc_unknown_act ex_sel True [p] =
     Raised (Critical ''Unknown quantization method for activations'') (ex_node, [p, p, p])"
  by (simp add: set_quantization_configs_to_node_def get_qco_def ex_tpc_unknown_act_def
      ex_node_type ex_fw_channels create_node_candidates_qc_def ex_fw_attrs deepcopy_def
      ex_single ex_single_unknown_act)

lemma ex_graph_result_no_mp:
  "set_quantization_configuration_to_graph ex_graph 0 ex_sel False [p] =
     Done (ex_graph\<lparr>nodes := [ex_node\<lparr>candidates_quantization_cfg := [ex_cand 0 8 8]\<rparr>]\<rparr>, [p])"
  by (simp add: set_quantization_configuration_to_graph_def ex_graph_def ex_node_no_mp)

lemma ex_graph_valid:
  "\<forall>n\<in>set (nodes ex_graph). QuantizationConfigOptions_valid (get_qco n (tpc ex_graph))"
  by (simp add: ex_graph_def get_qco_def ex_tpc_def ex_options_def
      QuantizationConfigOptions_valid_def)


section \<open>Properties of the candidate synthesis\<close>

text \<open>
  Claim C1. For every node configured with mixed precision enabled, the attached
  candidate list is sorted in descending order of the pair (weights bit-width, activation
  bit-width), the weights bit-width being the primary key: of two adjacent candidates the
  first has the greater weights bit-width, or the same one and an activation bit-width
  that is greater or equal. The sort is stable: the candidates with one and the same pair
  stand in the order of the entries of the options' config list they were built from.
\<close>

theorem candidates_sorted_descending_and_stable:
  assumes "set_quantization_configs_to_node node q fw t sel True s = Done (node', s')"
  shows "(\<forall>i. Suc i < length (candidates_quantization_cfg node') \<longrightarrow>
       weights_n_bits (weights_quantization_cfg (candidates_quantization_cfg node' ! Suc i))
         < weights_n_bits (weights_quantization_cfg (candidates_quantization_cfg node' ! i)) \<or>
       weights_n_bits (weights_quantization_cfg (candidates_quantization_cfg node' ! Suc i))
         = weights_n_bits (weights_quantization_cfg (candidates_quantization_cfg node' ! i)) \<and>
       activation_n_bits (activation_quantization_cfg (candidates_quantization_cfg node' ! Suc i))
         \<le> activation_n_bits (activation_quantization_cfg (candidates_quantization_cfg node' ! i))) \<and>
    (\<exists>axis rest k cs.
       kernel_channels_mapping fw (node_type node) = Some (axis # rest) \<and>
       get_kernel_op_attributes fw (node_type node) = [k] \<and>
       length cs = length (quantization_config_list (get_qco node t)) \<and>
       (\<forall>i<length (quantization_config_list (get_qco node t)).
          create_node_single_candidate_qc (length s + i) fw sel axis
            (quantization_config_list (get_qco node t) ! i) k = Inr (cs ! i)) \<and>
       (\<forall>key. filter (\<lambda>c. sort_key_of c = key) (candidates_quantization_cfg node') =
               map (reconcile node fw) (filter (\<lambda>c. sort_key_of c = key) cs)))"
proof -
  from node_Done [OF assms] obtain axis rest cands where
    a: "kernel_channels_mapping fw (node_type node) = Some (axis # rest)" and
    c: "create_node_candidates_qc q fw sel axis (get_qco node t) (node_type node) True s =
          (Inr cands, s')" and
    n: "node' = node\<lparr>candidates_quantization_cfg := map (reconcile node fw) cands\<rparr>"
    by blast
  from create_candidates_mp [OF c] obtain k cs where
    k: "get_kernel_op_attributes fw (node_type node) = [k]" and
    l: "mp_loop q fw sel axis k (quantization_config_list (get_qco node t)) [] s = (Inr cs, s')" and
    e: "cands = sort_reverse sort_key_of cs"
    by blast
  from mp_loop_Inr [OF l] have
    len: "length cs = length (quantization_config_list (get_qco node t))" and
    each: "\<forall>i<length (quantization_config_list (get_qco node t)).
          create_node_single_candidate_qc (length s + i) fw sel axis
            (quantization_config_list (get_qco node t) ! i) k = Inr (cs ! i)"
    by auto
  let ?att = "candidates_quantization_cfg node'"
  have att: "?att = map (reconcile node fw) (sort_reverse sort_key_of cs)"
    using n e by simp
  have "sorted_wrt (\<lambda>x y. sort_key_of y \<le> sort_key_of x) (sort_reverse sort_key_of cs)"
    by (rule sort_reverse_sorted)
  then have srt: "sorted_wrt (\<lambda>x y. sort_key_of y \<le> sort_key_of x) ?att"
    by (simp add: att sorted_wrt_map sort_key_of_reconcile)
  have adj: "\<forall>i. Suc i < length ?att \<longrightarrow>
       weights_n_bits (weights_quantization_cfg (?att ! Suc i))
         < weights_n_bits (weights_quantization_cfg (?att ! i)) \<or>
       weights_n_bits (weights_quantization_cfg (?att ! Suc i))
         = weights_n_bits (weights_quantization_cfg (?att ! i)) \<and>
       activation_n_bits (activation_quantization_cfg (?att ! Suc i))
         \<le> activation_n_bits (activation_quantization_cfg (?att ! i))"
  proof (intro allI impI)
    fix i assume "Suc i < length ?att"
    from sorted_wrt_adjacent [OF srt this]
    have "sort_key_of (?att ! Suc i) \<le> sort_key_of (?att ! i)" .
    then show "weights_n_bits (weights_quantization_cfg (?att ! Suc i))
         < weights_n_bits (weights_quantization_cfg (?att ! i)) \<or>
       weights_n_bits (weights_quantization_cfg (?att ! Suc i))
         = weights_n_bits (weights_quantization_cfg (?att ! i)) \<and>
       activation_n_bits (activation_quantization_cfg (?att ! Suc i))
         \<le> activation_n_bits (activation_quantization_cfg (?att ! i))"
      by (auto simp: sort_key_of_def less_eq_prod_def)
  qed
  have stab: "filter (\<lambda>c. sort_key_of c = key) ?att =
               map (reconcile node fw) (filter (\<lambda>c. sort_key_of c = key) cs)" for key
  proof -
    have "filter (\<lambda>c. sort_key_of c = key) ?att =
          map (reconcile node fw)
            (filter (\<lambda>c. sort_key_of c = key) (sort_reverse sort_key_of cs))"
      by (simp add: att filter_map comp_def sort_key_of_reconcile)
    then show ?thesis by (simp only: sort_reverse_stable)
  qed
  from adj a k len each stab show ?thesis by blast
qed

theorem candidates_sorted_descending_and_stable_witness:
  "set_quantization_configs_to_node ex_node 0 ex_fw ex_tpc ex_sel True [0::nat] =
     Done (ex_node\<lparr>candidates_quantization_cfg :=
             [ex_cand (Suc 0) 8 8, ex_cand 3 8 4, ex_cand 2 4 8, ex_cand 4 2 2]\<rparr>, [0, 0, 0, 0, 0]) \<and>
   map sort_key_of [ex_cand (Suc 0) 8 8, ex_cand 3 8 4, ex_cand 2 4 8, ex_cand 4 2 2] =
     [(8, 8), (8, 4), (4, 8), (2, 2)]"
  using candidates_sorted_descending_and_stable [OF ex_node_mp [of "0::nat"]]
    ex_node_mp [of "0::nat"]
  by (simp add: sort_key_of_ex_cand)

text \<open>
  Claim C2. For every node configured with mixed precision disabled, the attached
  candidate list has length exactly 1, and that single candidate is built from the base
  config of the node's options, not from any entry of the options' config list:
  replacing that list by any other leaves the outcome as it is, and the candidate's
  weights config carries the bit-width, method and per-channel flag of the base config's
  sub-config for the kernel attribute (its default sub-config when the attribute is not
  listed) with the functions selected for that method, its activation config carries the
  bit-width and method of the base config with the functions selected for that method,
  and its enable flags are those of the base config and-ed with the node's structural
  properties.
\<close>

theorem single_candidate_from_base_config:
  assumes "set_quantization_configs_to_node node q fw t sel False s = Done (node', s')"
  shows "length (candidates_quantization_cfg node') = 1 \<and>
    (\<exists>axis rest k c0.
       kernel_channels_mapping fw (node_type node) = Some (axis # rest) \<and>
       get_kernel_op_attributes fw (node_type node) = [k] \<and>
       create_node_single_candidate_qc q fw sel axis (base_config (get_qco node t)) k = Inr c0 \<and>
       candidates_quantization_cfg node' = [reconcile node fw c0]) \<and>
    (\<forall>l. set_quantization_configs_to_node node q fw
            (\<lambda>ty. (t ty)\<lparr>quantization_config_list := l\<rparr>) sel False s = Done (node', s')) \<and>
    (\<exists>axis rest k c w.
       kernel_channels_mapping fw (node_type node) = Some (axis # rest) \<and>
       get_kernel_op_attributes fw (node_type node) = [k] \<and>
       candidates_quantization_cfg node' = [c] \<and>
       w = (case attr_weights_configs_mapping (base_config (get_qco node t)) k of
              None \<Rightarrow> default_weight_attr_config (base_config (get_qco node t))
            | Some a \<Rightarrow> a) \<and>
       qc c = q \<and>
       weights_channels_axis (weights_quantization_cfg c) = axis \<and>
       weights_n_bits (weights_quantization_cfg c) = attr_weights_n_bits w \<and>
       node_weights_quantization_method (weights_quantization_cfg c) =
         weights_quantization_method w \<and>
       weights_per_channel_threshold (weights_quantization_cfg c) =
         attr_weights_per_channel_threshold w \<and>
       enable_weights_quantization (weights_quantization_cfg c) =
         (attr_enable_weights_quantization w \<and> has_weights_to_quantize node fw) \<and>
       get_weights_quantization_fn sel (weights_quantization_method w) =
         Inr (Some (weights_quantization_fn (weights_quantization_cfg c))) \<and>
       get_weights_quantization_params_fn sel (weights_quantization_method w) =
         Inr (weights_quantization_params_fn (weights_quantization_cfg c)) \<and>
       activation_n_bits (activation_quantization_cfg c) =
         op_activation_n_bits (base_config (get_qco node t)) \<and>
       node_activation_quantization_method (activation_quantization_cfg c) =
         activation_quantization_method (base_config (get_qco node t)) \<and>
       enable_activation_quantization (activation_quantization_cfg c) =
         (op_enable_activation_quantization (base_config (get_qco node t)) \<and>
          get_has_activation node) \<and>
       activation_quantizer_mapping fw
           (activation_quantization_method (base_config (get_qco node t))) =
         Some (activation_quantization_fn (activation_quantization_cfg c)) \<and>
       get_activation_quantization_params_fn sel
           (activation_quantization_method (base_config (get_qco node t))) =
         Inr (activation_quantization_params_fn (activation_quantization_cfg c)))"
proof -
  from node_Done [OF assms] obtain axis rest cands where
    a: "kernel_channels_mapping fw (node_type node) = Some (axis # rest)" and
    c: "create_node_candidates_qc q fw sel axis (get_qco node t) (node_type node) False s =
          (Inr cands, s')" and
    n: "node' = node\<lparr>candidates_quantization_cfg := map (reconcile node fw) cands\<rparr>"
    by blast
  from create_candidates_no_mp [OF c] obtain k c0 where
    k: "get_kernel_op_attributes fw (node_type node) = [k]" and
    s: "create_node_single_candidate_qc q fw sel axis (base_config (get_qco node t)) k = Inr c0" and
    e: "cands = [c0]" "s' = s"
    by blast
  have att: "candidates_quantization_cfg node' = [reconcile node fw c0]"
    using n e by simp
  have indep: "set_quantization_configs_to_node node q fw
          (\<lambda>ty. (t ty)\<lparr>quantization_config_list := l\<rparr>) sel False s = Done (node', s')" for l
    using a k s e n
    by (simp add: set_quantization_configs_to_node_def get_qco_def create_node_candidates_qc_def)
  note f = single_fields [OF s]
  have fields: "\<exists>axis rest k c w.
       kernel_channels_mapping fw (node_type node) = Some (axis # rest) \<and>
       get_kernel_op_attributes fw (node_type node) = [k] \<and>
       candidates_quantization_cfg node' = [c] \<and>
       w = (case attr_weights_configs_mapping (base_config (get_qco node t)) k of
              None \<Rightarrow> default_weight_attr_config (base_config (get_qco node t))
            | Some a \<Rightarrow> a) \<and>
       qc c = q \<and>
       weights_channels_axis (weights_quantization_cfg c) = axis \<and>
       weights_n_bits (weights_quantization_cfg c) = attr_weights_n_bits w \<and>
       node_weights_quantization_method (weights_quantization_cfg c) =
         weights_quantization_method w \<and>
       weights_per_channel_threshold (weights_quantization_cfg c) =
         attr_weights_per_channel_threshold w \<and>
       enable_weights_quantization (weights_quantization_cfg c) =
         (attr_enable_weights_quantization w \<and> has_weights_to_quantize node fw) \<and>
       get_weights_quantization_fn sel (weights_quantization_method w) =
         Inr (Some (weights_quantization_fn (weights_quantization_cfg c))) \<and>
       get_weights_quantization_params_fn sel (weights_quantization_method w) =
         Inr (weights_quantization_params_fn (weights_quantization_cfg c)) \<and>
       activation_n_bits (activation_quantization_cfg c) =
         op_activation_n_bits (base_config (get_qco node t)) \<and>
       node_activation_quantization_method (activation_quantization_cfg c) =
         activation_quantization_method (base_config (get_qco node t)) \<and>
       enable_activation_quantization (activation_quantization_cfg c) =
         (op_enable_activation_quantization (base_config (get_qco node t)) \<and>
          get_has_activation node) \<and>
       activation_quantizer_mapping fw
           (activation_quantization_method (base_config (get_qco node t))) =
         Some (activation_quantization_fn (activation_quantization_cfg c)) \<and>
       get_activation_quantization_params_fn sel
           (activation_quantization_method (base_config (get_qco node t))) =
         Inr (activation_quantization_params_fn (activation_quantization_cfg c))"
    apply (rule exI [of _ axis], rule exI [of _ rest], rule exI [of _ k])
    apply (rule exI [of _ "reconcile node fw c0"])
    apply (rule exI [of _ "case attr_weights_configs_mapping (base_config (get_qco node t)) k of
              None \<Rightarrow> default_weight_attr_config (base_config (get_qco node t))
            | Some a \<Rightarrow> a"])
    using a k att f
    apply (simp only: reconcile_fields enable_reconcile)
    done
  from a k s att have old: "\<exists>axis rest k c0.
       kernel_channels_mapping fw (node_type node) = Some (axis # rest) \<and>
       get_kernel_op_attributes fw (node_type node) = [k] \<and>
       create_node_single_candidate_qc q fw sel axis (base_config (get_qco node t)) k = Inr c0 \<and>
       candidates_quantization_cfg node' = [reconcile node fw c0]"
    by blast
  have len: "length (candidates_quantization_cfg node') = 1" using att by simp
  from len old indep fields show ?thesis by blast
qed

theorem single_candidate_from_base_config_witness:
  "set_quantization_configs_to_node ex_node 0 ex_fw ex_tpc ex_sel False [0::nat] =
     Done (ex_node\<lparr>candidates_quantization_cfg := [ex_cand 0 8 8]\<rparr>, [0]) \<and>
   length (candidates_quantization_cfg (ex_node\<lparr>candidates_quantization_cfg := [ex_cand 0 8 8]\<rparr>)) = 1 \<and>
   weights_n_bits (weights_quantization_cfg (ex_cand 0 8 8)) = 8 \<and>
   activation_n_bits (activation_quantization_cfg (ex_cand 0 8 8)) =
     op_activation_n_bits (base_config (get_qco ex_node ex_tpc))"
  using single_candidate_from_base_config [OF ex_node_no_mp [of "0::nat"]] ex_node_no_mp [of "0::nat"]
  by (simp add: ex_cand_fields get_qco_def ex_tpc_def ex_options_def ex_op_def)

text \<open>
  Claim C3. For every node configured with mixed precision enabled, the attached
  candidate list has as many elements as the config list of the node's options: exactly
  one candidate is synthesized per entry, the one for entry \<open>i\<close> from the \<open>i\<close>-th fresh
  copy of the policy.
\<close>

theorem one_candidate_per_op_config:
  assumes "set_quantization_configs_to_node node q fw t sel True s = Done (node', s')"
  shows "length (candidates_quantization_cfg node') =
           length (quantization_config_list (get_qco node t)) \<and>
    (\<exists>axis rest k cs.
       kernel_channels_mapping fw (node_type node) = Some (axis # rest) \<and>
       get_kernel_op_attributes fw (node_type node) = [k] \<and>
       length cs = length (quantization_config_list (get_qco node t)) \<and>
       (\<forall>i<length (quantization_config_list (get_qco node t)).
          create_node_single_candidate_qc (length s + i) fw sel axis
            (quantization_config_list (get_qco node t) ! i) k = Inr (cs ! i)) \<and>
       candidates_quantization_cfg node' =
         map (reconcile node fw) (sort_reverse sort_key_of cs))"
proof -
  from node_Done [OF assms] obtain axis rest cands where
    a: "kernel_channels_mapping fw (node_type node) = Some (axis # rest)" and
    c: "create_node_candidates_qc q fw sel axis (get_qco node t) (node_type node) True s =
          (Inr cands, s')" and
    n: "node' = node\<lparr>candidates_quantization_cfg := map (reconcile node fw) cands\<rparr>"
    by blast
  from create_candidates_mp [OF c] obtain k cs where
    k: "get_kernel_op_attributes fw (node_type node) = [k]" and
    l: "mp_loop q fw sel axis k (quantization_config_list (get_qco node t)) [] s = (Inr cs, s')" and
    e: "cands = sort_reverse sort_key_of cs"
    by blast
  from mp_loop_Inr [OF l] have
    len: "length cs = length (quantization_config_list (get_qco node t))" and
    each: "\<forall>i<length (quantization_config_list (get_qco node t)).
          create_node_single_candidate_qc (length s + i) fw sel axis
            (quantization_config_list (get_qco node t) ! i) k = Inr (cs ! i)"
    by auto
  have "length (candidates_quantization_cfg node') =
          length (quantization_config_list (get_qco node t))"
    using n e len by (simp add: sort_reverse_def)
  moreover have "candidates_quantization_cfg node' =
      map (reconcile node fw) (sort_reverse sort_key_of cs)"
    using n e by simp
  ultimately show ?thesis using a k len each by blast
qed

theorem one_candidate_per_op_config_witness:
  "set_quantization_configs_to_node ex_node 0 ex_fw ex_tpc ex_sel True [0::nat] =
     Done (ex_node\<lparr>candidates_quantization_cfg :=
             [ex_cand (Suc 0) 8 8, ex_cand 3 8 4, ex_cand 2 4 8, ex_cand 4 2 2]\<rparr>, [0, 0, 0, 0, 0]) \<and>
   length [ex_cand (Suc 0) 8 8, ex_cand 3 8 4, ex_cand 2 4 8, ex_cand 4 2 2] =
     length (quantization_config_list (get_qco ex_node ex_tpc))"
  using one_candidate_per_op_config [OF ex_node_mp [of "0::nat"]] ex_node_mp [of "0::nat"]
  by simp

text \<open>
  Claim C4. After a node has been configured, every candidate of its attached list has a
  weights-enable flag equal to the flag it was synthesized with and-ed with the node
  having weights to quantize, and an activation-enable flag equal to the flag it was
  synthesized with and-ed with the node having an activation. In particular, for a node
  that has no weights to quantize every candidate's weights-enable flag is off, whatever
  the flag it was synthesized with (and likewise for the activation). This holds for each
  candidate of the list, be it one or many, in either mode.
\<close>

theorem enable_flags_reconciled_for_every_candidate:
  assumes "set_quantization_configs_to_node node q fw t sel mp s = Done (node', s')"
  shows "\<exists>axis rest cands.
    kernel_channels_mapping fw (node_type node) = Some (axis # rest) \<and>
    create_node_candidates_qc q fw sel axis (get_qco node t) (node_type node) mp s =
      (Inr cands, s') \<and>
    length (candidates_quantization_cfg node') = length cands \<and>
    (\<forall>i<length cands.
       enable_weights_quantization
           (weights_quantization_cfg (candidates_quantization_cfg node' ! i)) =
         (enable_weights_quantization (weights_quantization_cfg (cands ! i)) \<and>
          has_weights_to_quantize node fw) \<and>
       enable_activation_quantization
           (activation_quantization_cfg (candidates_quantization_cfg node' ! i)) =
         (enable_activation_quantization (activation_quantization_cfg (cands ! i)) \<and>
          get_has_activation node)) \<and>
    (\<not> has_weights_to_quantize node fw \<longrightarrow>
       (\<forall>c\<in>set (candidates_quantization_cfg node').
          \<not> enable_weights_quantization (weights_quantization_cfg c))) \<and>
    (\<not> get_has_activation node \<longrightarrow>
       (\<forall>c\<in>set (candidates_quantization_cfg node').
          \<not> enable_activation_quantization (activation_quantization_cfg c)))"
proof -
  from node_Done [OF assms] obtain axis rest cands where
    a: "kernel_channels_mapping fw (node_type node) = Some (axis # rest)" and
    c: "create_node_candidates_qc q fw sel axis (get_qco node t) (node_type node) mp s =
          (Inr cands, s')" and
    n: "node' = node\<lparr>candidates_quantization_cfg := map (reconcile node fw) cands\<rparr>"
    by blast
  have att: "candidates_quantization_cfg node' = map (reconcile node fw) cands"
    using n by simp
  have len: "length (candidates_quantization_cfg node') = length cands"
    by (simp add: att)
  have each: "\<forall>i<length cands.
       enable_weights_quantization
           (weights_quantization_cfg (candidates_quantization_cfg node' ! i)) =
         (enable_weights_quantization (weights_quantization_cfg (cands ! i)) \<and>
          has_weights_to_quantize node fw) \<and>
       enable_activation_quantization
           (activation_quantization_cfg (candidates_quantization_cfg node' ! i)) =
         (enable_activation_quantization (activation_quantization_cfg (cands ! i)) \<and>
          get_has_activation node)"
    by (simp add: att enable_reconcile)
  have now: "\<not> has_weights_to_quantize node fw \<longrightarrow>
       (\<forall>c\<in>set (candidates_quantization_cfg node').
          \<not> enable_weights_quantization (weights_quantization_cfg c))"
    by (auto simp: att enable_reconcile)
  have noa: "\<not> get_has_activation node \<longrightarrow>
       (\<forall>c\<in>set (candidates_quantization_cfg node').
          \<not> enable_activation_quantization (activation_quantization_cfg c))"
    by (auto simp: att enable_reconcile)
  from a c len each now noa show ?thesis by blast
qed

theorem enable_flags_reconciled_for_every_candidate_witness:
  "set_quantization_configs_to_node ex_node_nw 0 ex_fw ex_tpc ex_sel True [0::nat] =
     Done (ex_node_nw\<lparr>candidates_quantization_cfg :=
             map (reconcile ex_node_nw ex_fw)
               [ex_cand (Suc 0) 8 8, ex_cand 3 8 4, ex_cand 2 4 8, ex_cand 4 2 2]\<rparr>,
           [0, 0, 0, 0, 0]) \<and>
   map (\<lambda>c. enable_weights_quantization (weights_quantization_cfg c))
     [ex_cand (Suc 0) 8 8, ex_cand 3 8 4, ex_cand 2 4 8, ex_cand 4 2 2] = [True, True, True, True] \<and>
   map (\<lambda>c. enable_weights_quantization (weights_quantization_cfg c))
     (map (reconcile ex_node_nw ex_fw)
        [ex_cand (Suc 0) 8 8, ex_cand 3 8 4, ex_cand 2 4 8, ex_cand 4 2 2]) =
     [False, False, False, False]"
  using enable_flags_reconciled_for_every_candidate [OF ex_node_nw_mp [of "0::nat"]]
    ex_node_nw_mp [of "0::nat"]
  by (simp add: enable_reconcile ex_node_nw_def)
     (simp add: ex_cand_def CandidateNodeQuantizationConfig_init_def ex_attr_def)

text \<open>
  Claim C5. In mixed-precision synthesis each candidate is built from its own deep copy
  of the policy object: the candidates' policy references are pairwise distinct, each is
  a freshly allocated object with the contents of the caller's policy, and none is the
  caller's object, which synthesis leaves as it was. So a mutation of the policy state
  reached through one candidate changes neither what any sibling candidate reaches nor
  the caller's policy object.
\<close>

theorem mixed_precision_candidates_own_fresh_copies:
  assumes "q < length s"
    and "create_node_candidates_qc q fw sel axis opts ty True s = (Inr cands, s')"
  shows "distinct (map qc cands) \<and>
    (\<forall>c\<in>set cands. qc c \<noteq> q \<and> length s \<le> qc c \<and> qc c < length s' \<and> s' ! qc c = s ! q) \<and>
    (\<forall>a<length s. s' ! a = s ! a) \<and>
    (\<forall>c\<in>set cands. \<forall>v.
       (s'[qc c := v]) ! qc c = v \<and>
       (s'[qc c := v]) ! q = s ! q \<and>
       (\<forall>c'\<in>set cands. c' \<noteq> c \<longrightarrow> (s'[qc c := v]) ! qc c' = s' ! qc c'))"
proof -
  from create_candidates_mp [OF assms(2)] obtain k cs where
    l: "mp_loop q fw sel axis k (quantization_config_list opts) [] s = (Inr cs, s')" and
    e: "cands = sort_reverse sort_key_of cs"
    by blast
  let ?n = "length (quantization_config_list opts)"
  have qcs: "map qc cs = [length s ..< length s + ?n]" by (rule mp_loop_qcs [OF l])
  have st: "s' = s @ replicate ?n (s ! q)" by (rule mp_loop_store_Inr [OF assms(1) l])
  have d: "distinct (map qc cands)"
    using qcs by (simp add: e sort_reverse_distinct_map)
  have rng: "length s \<le> qc c \<and> qc c < length s + ?n" if "c \<in> set cands" for c
  proof -
    from that have "qc c \<in> set (map qc cs)" by (simp add: e sort_reverse_set)
    then show ?thesis by (simp only: qcs) simp
  qed
  have old: "\<forall>a<length s. s' ! a = s ! a" by (simp add: st nth_append)
  have fresh: "qc c \<noteq> q \<and> length s \<le> qc c \<and> qc c < length s' \<and> s' ! qc c = s ! q"
    if "c \<in> set cands" for c
    using rng [OF that] assms(1) by (auto simp: st nth_append)
  have inj: "qc c' \<noteq> qc c" if "c \<in> set cands" "c' \<in> set cands" "c' \<noteq> c" for c c'
    using d that by (auto simp: distinct_map inj_on_def)
  have mut: "(s'[qc c := v]) ! qc c = v \<and> (s'[qc c := v]) ! q = s ! q \<and>
       (\<forall>c'\<in>set cands. c' \<noteq> c \<longrightarrow> (s'[qc c := v]) ! qc c' = s' ! qc c')"
    if c: "c \<in> set cands" for c v
  proof (intro conjI ballI impI)
    show "(s'[qc c := v]) ! qc c = v" using fresh [OF c] by simp
    show "(s'[qc c := v]) ! q = s ! q" using fresh [OF c] old assms(1) by simp
    fix c' assume "c' \<in> set cands" "c' \<noteq> c"
    from inj [OF c this] show "(s'[qc c := v]) ! qc c' = s' ! qc c'" by simp
  qed
  from d fresh old mut show ?thesis by blast
qed

theorem mixed_precision_candidates_own_fresh_copies_witness:
  "create_node_candidates_qc 0 ex_fw ex_sel 3 ex_options ''Conv2D'' True [7::nat] =
     (Inr [ex_cand (Suc 0) 8 8, ex_cand 3 8 4, ex_cand 2 4 8, ex_cand 4 2 2], [7, 7, 7, 7, 7]) \<and>
   map qc [ex_cand (Suc 0) 8 8, ex_cand 3 8 4, ex_cand 2 4 8, ex_cand 4 2 2] = [Suc 0, 3, 2, 4] \<and>
   [7, 7, 7, 7, 7::nat][qc (ex_cand 3 8 4) := 9] = [7, 7, 7, 9, 7]"
proof -
  have h: "(0::nat) < length [7::nat]" by simp
  from mixed_precision_candidates_own_fresh_copies [OF h ex_create_mp [of "7::nat"]]
    ex_create_mp [of "7::nat"]
  show ?thesis
    by (simp add: ex_cand_def CandidateNodeQuantizationConfig_init_def eval_nat_numeral)
qed

text \<open>
  Claim C6. Candidate synthesis fails with the assertion whenever the kernel-attribute
  resolution for the node type returns zero or more than one attribute name. When it
  returns one name, synthesis does not fail with the assertion, and that name is the
  kernel attribute used for the weight sub-config resolution: every candidate returned
  was built from a config that synthesis uses, and its weights config carries the
  bit-width, method, per-channel flag and enable flag of the sub-config that this config
  maps the name to (of its default sub-config when it does not list the name), with the
  functions selected for that sub-config's method.
\<close>

theorem kernel_attribute_resolution_assertion:
  "(length (get_kernel_op_attributes fw ty) \<noteq> 1 \<longrightarrow>
      create_node_candidates_qc q fw sel axis opts ty mp s = (Inl AssertionError, s)) \<and>
   (length (get_kernel_op_attributes fw ty) = 1 \<longrightarrow>
      fst (create_node_candidates_qc q fw sel axis opts ty mp s) \<noteq> Inl AssertionError \<and>
      (\<forall>cands. fst (create_node_candidates_qc q fw sel axis opts ty mp s) = Inr cands \<longrightarrow>
         (\<forall>c\<in>set cands. \<exists>op_cfg w.
            op_cfg \<in> (if mp then set (quantization_config_list opts) else {base_config opts}) \<and>
            create_node_single_candidate_qc (qc c) fw sel axis op_cfg
              (hd (get_kernel_op_attributes fw ty)) = Inr c \<and>
            w = (case attr_weights_configs_mapping op_cfg (hd (get_kernel_op_attributes fw ty)) of
                   None \<Rightarrow> default_weight_attr_config op_cfg
                 | Some a \<Rightarrow> a) \<and>
            weights_n_bits (weights_quantization_cfg c) = attr_weights_n_bits w \<and>
            node_weights_quantization_method (weights_quantization_cfg c) =
              weights_quantization_method w \<and>
            weights_per_channel_threshold (weights_quantization_cfg c) =
              attr_weights_per_channel_threshold w \<and>
            enable_weights_quantization (weights_quantization_cfg c) =
              attr_enable_weights_quantization w \<and>
            get_weights_quantization_fn sel (weights_quantization_method w) =
              Inr (Some (weights_quantization_fn (weights_quantization_cfg c))) \<and>
            get_weights_quantization_params_fn sel (weights_quantization_method w) =
              Inr (weights_quantization_params_fn (weights_quantization_cfg c)))))"
proof (intro conjI impI)
  assume "length (get_kernel_op_attributes fw ty) \<noteq> 1"
  then show "create_node_candidates_qc q fw sel axis opts ty mp s = (Inl AssertionError, s)"
    by (cases "get_kernel_op_attributes fw ty" rule: list.exhaust)
       (auto simp: create_node_candidates_qc_def split: list.splits)
next
  assume "length (get_kernel_op_attributes fw ty) = 1"
  then obtain k where k: "get_kernel_op_attributes fw ty = [k]"
    by (cases "get_kernel_op_attributes fw ty") auto
  show "fst (create_node_candidates_qc q fw sel axis opts ty mp s) \<noteq> Inl AssertionError"
    using k mp_loop_not_assertion [of q fw sel axis k "quantization_config_list opts" "[]" s]
      single_not_assertion [of q fw sel axis "base_config opts" k]
    by (auto simp: create_node_candidates_qc_def split: sum.splits prod.splits)
  let ?used = "if mp then set (quantization_config_list opts) else {base_config opts}"
  have built: "\<exists>op_cfg. op_cfg \<in> ?used \<and>
      create_node_single_candidate_qc (qc c) fw sel axis op_cfg k = Inr c"
    if r: "fst (create_node_candidates_qc q fw sel axis opts ty mp s) = Inr cands"
      and c: "c \<in> set cands" for cands c
  proof -
    obtain s' where r': "create_node_candidates_qc q fw sel axis opts ty mp s = (Inr cands, s')"
      using r by (cases "create_node_candidates_qc q fw sel axis opts ty mp s") auto
    show ?thesis
    proof (cases mp)
      case False
      with r' create_candidates_no_mp [of q fw sel axis opts ty s cands s'] k c
      obtain c0 where c0: "create_node_single_candidate_qc q fw sel axis (base_config opts) k = Inr c0"
        "cands = [c0]" by auto
      with single_qc [OF c0(1)] c False show ?thesis by auto
    next
      case True
      with r' create_candidates_mp [of q fw sel axis opts ty s cands s'] k
      obtain cs where l: "mp_loop q fw sel axis k (quantization_config_list opts) [] s = (Inr cs, s')"
        and e: "cands = sort_reverse sort_key_of cs" by auto
      from mp_loop_Inr [OF l] have
        len: "length cs = length (quantization_config_list opts)" and
        each: "\<forall>i<length (quantization_config_list opts).
          create_node_single_candidate_qc (length s + i) fw sel axis
            (quantization_config_list opts ! i) k = Inr (cs ! i)"
        by auto
      from c e have "c \<in> set cs" by (simp add: sort_reverse_def)
      then obtain i where i: "i < length cs" "cs ! i = c" by (auto simp: in_set_conv_nth)
      with each len have s: "create_node_single_candidate_qc (length s + i) fw sel axis
            (quantization_config_list opts ! i) k = Inr c" by auto
      from single_qc [OF s] have "qc c = length s + i" .
      with s i len True show ?thesis
        by (intro exI [of _ "quantization_config_list opts ! i"]) auto
    qed
  qed
  show "\<forall>cands. fst (create_node_candidates_qc q fw sel axis opts ty mp s) = Inr cands \<longrightarrow>
         (\<forall>c\<in>set cands. \<exists>op_cfg w.
            op_cfg \<in> ?used \<and>
            create_node_single_candidate_qc (qc c) fw sel axis op_cfg
              (hd (get_kernel_op_attributes fw ty)) = Inr c \<and>
            w = (case attr_weights_configs_mapping op_cfg (hd (get_kernel_op_attributes fw ty)) of
                   None \<Rightarrow> default_weight_attr_config op_cfg
                 | Some a \<Rightarrow> a) \<and>
            weights_n_bits (weights_quantization_cfg c) = attr_weights_n_bits w \<and>
            node_weights_quantization_method (weights_quantization_cfg c) =
              weights_quantization_method w \<and>
            weights_per_channel_threshold (weights_quantization_cfg c) =
              attr_weights_per_channel_threshold w \<and>
            enable_weights_quantization (weights_quantization_cfg c) =
              attr_enable_weights_quantization w \<and>
            get_weights_quantization_fn sel (weights_quantization_method w) =
              Inr (Some (weights_quantization_fn (weights_quantization_cfg c))) \<and>
            get_weights_quantization_params_fn sel (weights_quantization_method w) =
              Inr (weights_quantization_params_fn (weights_quantization_cfg c)))"
  proof (intro allI impI ballI)
    fix cands c
    assume r: "fst (create_node_candidates_qc q fw sel axis opts ty mp s) = Inr cands"
      and c: "c \<in> set cands"
    from built [OF r c] obtain op_cfg where
      u: "op_cfg \<in> ?used" and
      b: "create_node_single_candidate_qc (qc c) fw sel axis op_cfg k = Inr c" by blast
    note f = single_fields [OF b]
    show "\<exists>op_cfg w.
            op_cfg \<in> ?used \<and>
            create_node_single_candidate_qc (qc c) fw sel axis op_cfg
              (hd (get_kernel_op_attributes fw ty)) = Inr c \<and>
            w = (case attr_weights_configs_mapping op_cfg (hd (get_kernel_op_attributes fw ty)) of
                   None \<Rightarrow> default_weight_attr_config op_cfg
                 | Some a \<Rightarrow> a) \<and>
            weights_n_bits (weights_quantization_cfg c) = attr_weights_n_bits w \<and>
            node_weights_quantization_method (weights_quantization_cfg c) =
              weights_quantization_method w \<and>
            weights_per_channel_threshold (weights_quantization_cfg c) =
              attr_weights_per_channel_threshold w \<and>
            enable_weights_quantization (weights_quantization_cfg c) =
              attr_enable_weights_quantization w \<and>
            get_weights_quantization_fn sel (weights_quantization_method w) =
              Inr (Some (weights_quantization_fn (weights_quantization_cfg c))) \<and>
            get_weights_quantization_params_fn sel (weights_quantization_method w) =
              Inr (weights_quantization_params_fn (weights_quantization_cfg c))"
      apply (rule exI [of _ op_cfg])
      apply (rule exI [of _ "case attr_weights_configs_mapping op_cfg k of
                   None \<Rightarrow> default_weight_attr_config op_cfg | Some a \<Rightarrow> a"])
      using u b f k
      apply simp
      done
  qed
qed

theorem kernel_attribute_resolution_assertion_witness:
  "create_node_candidates_qc 0 ex_fw ex_sel 3 ex_options ''ReLU'' False [0::nat] =
     (Inl AssertionError, [0]) \<and>
   fst (create_node_candidates_qc 0 ex_fw ex_sel 3 ex_options ''Conv2D'' False [0::nat]) \<noteq>
     Inl AssertionError \<and>
   fst (create_node_candidates_qc 0 ex_fw ex_sel 3 ex_options ''Conv2D'' True [0::nat]) =
     Inr [ex_cand (Suc 0) 8 8, ex_cand 3 8 4, ex_cand 2 4 8, ex_cand 4 2 2] \<and>
   map (\<lambda>c. weights_n_bits (weights_quantization_cfg c))
     [ex_cand (Suc 0) 8 8, ex_cand 3 8 4, ex_cand 2 4 8, ex_cand 4 2 2] = [8, 8, 4, 2] \<and>
   map (\<lambda>op_cfg. attr_weights_n_bits
          (case attr_weights_configs_mapping op_cfg (hd (get_kernel_op_attributes ex_fw ''Conv2D'')) of
             None \<Rightarrow> default_weight_attr_config op_cfg | Some a \<Rightarrow> a))
     [ex_op 8 8, ex_op 8 4, ex_op 4 8, ex_op 2 2] = [8, 8, 4, 2] \<and>
   map (\<lambda>op_cfg. attr_weights_n_bits (default_weight_attr_config op_cfg))
     [ex_op 8 8, ex_op 8 4, ex_op 4 8, ex_op 2 2] = [8, 8, 8, 8]"
  using kernel_attribute_resolution_assertion [of ex_fw "''ReLU''" 0 ex_sel 3 ex_options False "[0::nat]"]
    kernel_attribute_resolution_assertion [of ex_fw "''Conv2D''" 0 ex_sel 3 ex_options False "[0::nat]"]
    kernel_attribute_resolution_assertion [of ex_fw "''Conv2D''" 0 ex_sel 3 ex_options True "[0::nat]"]
  by (simp add: ex_create_mp ex_cand_fields ex_fw_attrs)
     (simp add: ex_fw_def ex_op_def ex_attr_def)

text \<open>
  Claim C7, as stated: when the quantization method looked up for weights or for
  activation is unknown, synthesis aborts before any candidate is attached to the node,
  with a message that names the unknown method and states whether the failure was for
  weights or for activation. The message does not name the method: for the base config
  with the activation method \<^verbatim>\<open>LUT_POT_QUANTIZER\<close>, unknown to the framework info,
  configuring the node raises the critical error with the message
  \<^verbatim>\<open>Unknown quantization method for activations\<close>, in which the method's name does not
  occur.
\<close>

theorem unknown_method_message_names_no_method:
  "activation_quantizer_mapping ex_fw (activation_quantization_method ex_op_unknown_act) = None \<and>
   activation_quantization_method ex_op_unknown_act = ''LUT_POT_QUANTIZER'' \<and>
   set_quantization_configs_to_node ex_node 0 ex_fw ex_tpc_unknown_act ex_sel False [0::nat] =
     Raised (Critical ''Unknown quantization method for activations'') (ex_node, [0]) \<and>
   \<not> sublist ''LUT_POT_QUANTIZER'' ''Unknown quantization method for activations''"
proof -
  have "\<not> sublist ''LUT_POT_QUANTIZER'' ''Unknown quantization method for activations''"
    by (simp add: sublist_code)
  moreover have "activation_quantizer_mapping ex_fw
      (activation_quantization_method ex_op_unknown_act) = None"
    by (simp add: ex_fw_def ex_op_unknown_act_def ex_op_def)
  moreover have "activation_quantization_method ex_op_unknown_act = ''LUT_POT_QUANTIZER''"
    by (simp add: ex_op_unknown_act_def)
  ultimately show ?thesis by (simp only: ex_node_unknown_act) simp
qed

text \<open>
  Claim C7, amended. Let the kernel-channel and kernel-attribute resolutions of a node
  succeed, and consider the first config whose synthesis fails: with mixed precision
  disabled the base config, with mixed precision enabled an entry of the config list all
  of whose predecessors synthesize. If the selector returns \<^verbatim>\<open>None\<close> for its weights
  method, configuring the node raises the critical error with the message
  \<^verbatim>\<open>Unknown quantization method for weights for quantizing attribute: \<close> followed by the
  kernel attribute's name. If its weights lookups succeed and its activation method has
  no entry in the activation quantizer mapping, configuring the node raises the critical
  error with the message \<^verbatim>\<open>Unknown quantization method for activations\<close>. In both cases
  the node is left as it was: no candidate is attached. The message states the target;
  it is not built from the method.
\<close>

theorem unknown_method_aborts_before_attaching:
  assumes "kernel_channels_mapping fw (node_type node) = Some (axis # rest)"
    and "get_kernel_op_attributes fw (node_type node) = [k]"
    and "ops = (if mp then quantization_config_list (get_qco node t)
                else [base_config (get_qco node t)])"
    and "i < length ops"
    and "\<forall>j<i. \<exists>c. create_node_single_candidate_qc q fw sel axis (ops ! j) k = Inr c"
    and "get_weights_quantization_fn sel
           (weights_quantization_method (weights_cfg_of (ops ! i) k)) = Inr None \<or>
         (\<exists>w_fn w_params_fn.
            get_weights_quantization_fn sel
              (weights_quantization_method (weights_cfg_of (ops ! i) k)) = Inr (Some w_fn) \<and>
            get_weights_quantization_params_fn sel
              (weights_quantization_method (weights_cfg_of (ops ! i) k)) = Inr w_params_fn \<and>
            activation_quantizer_mapping fw (activation_quantization_method (ops ! i)) = None)"
  shows "\<exists>s'. set_quantization_configs_to_node node q fw t sel mp s =
           Raised (Critical
             (if get_weights_quantization_fn sel
                   (weights_quantization_method (weights_cfg_of (ops ! i) k)) = Inr None
              then ''Unknown quantization method for weights for quantizing attribute: '' @ k
              else ''Unknown quantization method for activations'')) (node, s') \<and>
         (\<not> mp \<longrightarrow> s' = s)"
proof -
  let ?msg = "if get_weights_quantization_fn sel
                   (weights_quantization_method (weights_cfg_of (ops ! i) k)) = Inr None
              then ''Unknown quantization method for weights for quantizing attribute: '' @ k
              else ''Unknown quantization method for activations''"
  have f: "create_node_single_candidate_qc q fw sel axis (ops ! i) k = Inl (Critical ?msg)"
  proof (cases "get_weights_quantization_fn sel
                   (weights_quantization_method (weights_cfg_of (ops ! i) k)) = Inr None")
    case True
    with single_unknown_weights [OF True, of q fw axis] show ?thesis by simp
  next
    case False
    with assms(6) obtain w_fn w_params_fn where
      w: "get_weights_quantization_fn sel
              (weights_quantization_method (weights_cfg_of (ops ! i) k)) = Inr (Some w_fn)" and
      p: "get_weights_quantization_params_fn sel
              (weights_quantization_method (weights_cfg_of (ops ! i) k)) = Inr w_params_fn" and
      a: "activation_quantizer_mapping fw (activation_quantization_method (ops ! i)) = None"
      by blast
    from single_unknown_activation [OF w p a, of q axis] False show ?thesis by simp
  qed
  from create_candidates_first_failure [OF assms(2) assms(3) assms(4) assms(5) f, of s]
  obtain s' where
    c: "create_node_candidates_qc q fw sel axis (get_qco node t) (node_type node) mp s =
          (Inl (Critical ?msg), s')" and
    u: "\<not> mp \<longrightarrow> s' = s" by blast
  from c assms(1) have
    "set_quantization_configs_to_node node q fw t sel mp s = Raised (Critical ?msg) (node, s')"
    by (simp add: set_quantization_configs_to_node_def)
  with u show ?thesis by blast
qed

theorem unknown_method_aborts_before_attaching_witness:
  "kernel_channels_mapping ex_fw (node_type ex_node) = Some [3, 2] \<and>
   get_kernel_op_attributes ex_fw (node_type ex_node) = [''kernel''] \<and>
   quantization_config_list (get_qco ex_node ex_tpc_unknown_act) = [ex_op 8 8, ex_op_unknown_act] \<and>
   base_config (get_qco ex_node ex_tpc_unknown_act) = ex_op_unknown_act \<and>
   create_node_single_candidate_qc 0 ex_fw ex_sel 3 (ex_op 8 8) ''kernel'' = Inr (ex_cand 0 8 8) \<and>
   get_weights_quantization_fn ex_sel
     (weights_quantization_method (weights_cfg_of ex_op_unknown_act ''kernel'')) =
     Inr (Some ''power_of_two_quantizer'') \<and>
   get_weights_quantization_params_fn ex_sel
     (weights_quantization_method (weights_cfg_of ex_op_unknown_act ''kernel'')) =
     Inr ''power_of_two_selection_tensor'' \<and>
   activation_quantizer_mapping ex_fw (activation_quantization_method ex_op_unknown_act) = None \<and>
   set_quantization_configs_to_node ex_node 0 ex_fw ex_tpc_unknown_act ex_sel False [0::nat] =
     Raised (Critical ''Unknown quantization method for activations'') (ex_node, [0]) \<and>
   set_quantization_configs_to_node ex_node 0 ex_fw ex_tpc_unknown_act ex_sel True [0::nat] =
     Raised (Critical ''Unknown quantization method for activations'') (ex_node, [0, 0, 0])"
proof -
  have a: "kernel_channels_mapping ex_fw (node_type ex_node) = Some (3 # [2])"
    by (simp add: ex_node_type ex_fw_channels)
  have b: "get_kernel_op_attributes ex_fw (node_type ex_node) = [''kernel'']"
    by (simp add: ex_node_type ex_fw_attrs)
  have l: "quantization_config_list (get_qco ex_node ex_tpc_unknown_act) =
      [ex_op 8 8, ex_op_unknown_act]"
    by (simp add: get_qco_def ex_tpc_unknown_act_def)
  have c: "base_config (get_qco ex_node ex_tpc_unknown_act) = ex_op_unknown_act"
    by (simp add: get_qco_def ex_tpc_unknown_act_def)
  have w: "get_weights_quantization_fn ex_sel
     (weights_quantization_method (weights_cfg_of ex_op_unknown_act ''kernel'')) =
     Inr (Some ''power_of_two_quantizer'')"
    by (simp add: ex_sel_def weights_cfg_of_def ex_op_unknown_act_def ex_op_def ex_attr_def)
  have p: "get_weights_quantization_params_fn ex_sel
     (weights_quantization_method (weights_cfg_of ex_op_unknown_act ''kernel'')) =
     Inr ''power_of_two_selection_tensor''"
    by (simp add: ex_sel_def)
  have d: "activation_quantizer_mapping ex_fw
      (activation_quantization_method ex_op_unknown_act) = None"
    by (simp add: ex_fw_def ex_op_unknown_act_def ex_op_def)
  txt \<open>Mixed precision disabled: the base config is the first and only config used.\<close>
  have o0: "[ex_op_unknown_act] =
      (if False then quantization_config_list (get_qco ex_node ex_tpc_unknown_act)
       else [base_config (get_qco ex_node ex_tpc_unknown_act)])"
    using c by simp
  have i0: "0 < length [ex_op_unknown_act]" by simp
  have e0: "\<forall>j<0. \<exists>c. create_node_single_candidate_qc 0 ex_fw ex_sel 3
      ([ex_op_unknown_act] ! j) ''kernel'' = Inr c" by simp
  have u0: "get_weights_quantization_fn ex_sel
           (weights_quantization_method (weights_cfg_of ([ex_op_unknown_act] ! 0) ''kernel'')) =
           Inr None \<or>
         (\<exists>w_fn w_params_fn.
            get_weights_quantization_fn ex_sel
              (weights_quantization_method (weights_cfg_of ([ex_op_unknown_act] ! 0) ''kernel'')) =
              Inr (Some w_fn) \<and>
            get_weights_quantization_params_fn ex_sel
              (weights_quantization_method (weights_cfg_of ([ex_op_unknown_act] ! 0) ''kernel'')) =
              Inr w_params_fn \<and>
            activation_quantizer_mapping ex_fw
              (activation_quantization_method ([ex_op_unknown_act] ! 0)) = None)"
    using w p d by simp
  txt \<open>Mixed precision enabled: the second entry of the config list is the first to fail.\<close>
  have o1: "[ex_op 8 8, ex_op_unknown_act] =
      (if True then quantization_config_list (get_qco ex_node ex_tpc_unknown_act)
       else [base_config (get_qco ex_node ex_tpc_unknown_act)])"
    using l by simp
  have i1: "Suc 0 < length [ex_op 8 8, ex_op_unknown_act]" by simp
  have e1: "\<forall>j<Suc 0. \<exists>c. create_node_single_candidate_qc 0 ex_fw ex_sel 3
      ([ex_op 8 8, ex_op_unknown_act] ! j) ''kernel'' = Inr c"
    by (simp add: ex_single)
  have u1: "get_weights_quantization_fn ex_sel
           (weights_quantization_method
              (weights_cfg_of ([ex_op 8 8, ex_op_unknown_act] ! Suc 0) ''kernel'')) = Inr None \<or>
         (\<exists>w_fn w_params_fn.
            get_weights_quantization_fn ex_sel
              (weights_quantization_method
                 (weights_cfg_of ([ex_op 8 8, ex_op_unknown_act] ! Suc 0) ''kernel'')) =
              Inr (Some w_fn) \<and>
            get_weights_quantization_params_fn ex_sel
              (weights_quantization_method
                 (weights_cfg_of ([ex_op 8 8, ex_op_unknown_act] ! Suc 0) ''kernel'')) =
              Inr w_params_fn \<and>
            activation_quantizer_mapping ex_fw
              (activation_quantization_method ([ex_op 8 8, ex_op_unknown_act] ! Suc 0)) = None)"
    using w p d by simp
  from unknown_method_aborts_before_attaching [OF a b o0 i0 e0 u0, of "[0::nat]"]
    unknown_method_aborts_before_attaching [OF a b o1 i1 e1 u1, of "[0::nat]"]
    a b l c w p d ex_single [of 0 8 8]
    ex_node_unknown_act [of "0::nat"] ex_node_unknown_act_mp [of "0::nat"]
  show ?thesis by simp
qed

text \<open>
  Claim C8. For every graph and every policy, after the graph-level pass has completed,
  the graph has the nodes it had and every node carries a non-empty candidate list, with
  mixed precision enabled or disabled. The graph's platform gives every node options in
  which the base config is one of the configs of the list.
\<close>

theorem every_node_gets_candidates:
  fixes s :: "'q list"
  assumes "set_quantization_configuration_to_graph graph q sel mp s = Done (graph', s')"
    and "\<forall>n\<in>set (nodes graph). QuantizationConfigOptions_valid (get_qco n (tpc graph))"
  shows "length (nodes graph') = length (nodes graph) \<and>
    (\<forall>n\<in>set (nodes graph'). candidates_quantization_cfg n \<noteq> [])"
proof -
  from assms(1) obtain ns' where
    r: "set_nodes (nodes graph) q (fw_info graph) (tpc graph) sel mp s = Done (ns', s')" and
    g: "graph' = graph\<lparr>nodes := ns'\<rparr>"
    by (auto simp: set_quantization_configuration_to_graph_def split: outcome.splits prod.splits)
  let ?R = "\<lambda>n n'. \<exists>(s0::'q list) s1.
    set_quantization_configs_to_node n q (fw_info graph) (tpc graph) sel mp s0 = Done (n', s1)"
  from set_nodes_Done [OF r] have rel: "list_all2 ?R (nodes graph) ns'" .
  then have len: "length ns' = length (nodes graph)" by (simp add: list_all2_lengthD)
  have "candidates_quantization_cfg n' \<noteq> []" if "n' \<in> set ns'" for n'
  proof -
    from that obtain i where i: "i < length ns'" "ns' ! i = n'" by (auto simp: in_set_conv_nth)
    with rel len have "?R (nodes graph ! i) n'" by (auto simp: list_all2_conv_all_nth)
    then obtain s0 :: "'q list" and s1 where
      d: "set_quantization_configs_to_node (nodes graph ! i) q (fw_info graph) (tpc graph) sel mp s0 =
            Done (n', s1)" by blast
    from i len have m: "nodes graph ! i \<in> set (nodes graph)" by simp
    with assms(2) have "QuantizationConfigOptions_valid (get_qco (nodes graph ! i) (tpc graph))"
      by blast
    then have ne: "quantization_config_list (get_qco (nodes graph ! i) (tpc graph)) \<noteq> []"
      by (auto simp: QuantizationConfigOptions_valid_def)
    from node_candidates_length [OF d] have
      l: "length (candidates_quantization_cfg n') =
           (if mp then length (quantization_config_list (get_qco (nodes graph ! i) (tpc graph)))
            else 1)" .
    show ?thesis
    proof (cases mp)
      case True
      with l ne show ?thesis by auto
    next
      case False
      with l show ?thesis by auto
    qed
  qed
  with len g show ?thesis by simp
qed

theorem every_node_gets_candidates_witness:
  "set_quantization_configuration_to_graph ex_graph 0 ex_sel True [0::nat] =
     Done (ex_graph\<lparr>nodes :=
             [ex_node\<lparr>candidates_quantization_cfg :=
                [ex_cand (Suc 0) 8 8, ex_cand 3 8 4, ex_cand 2 4 8, ex_cand 4 2 2]\<rparr>]\<rparr>,
           [0, 0, 0, 0, 0]) \<and>
   set_quantization_configuration_to_graph ex_graph 0 ex_sel False [0::nat] =
     Done (ex_graph\<lparr>nodes := [ex_node\<lparr>candidates_quantization_cfg := [ex_cand 0 8 8]\<rparr>]\<rparr>, [0]) \<and>
   map (\<lambda>n. QuantizationConfigOptions_valid (get_qco n (tpc ex_graph))) (nodes ex_graph) = [True] \<and>
   length (nodes (ex_graph\<lparr>nodes :=
             [ex_node\<lparr>candidates_quantization_cfg :=
                [ex_cand (Suc 0) 8 8, ex_cand 3 8 4, ex_cand 2 4 8, ex_cand 4 2 2]\<rparr>]\<rparr>)) =
     length (nodes ex_graph) \<and>
   length (nodes (ex_graph\<lparr>nodes := [ex_node\<lparr>candidates_quantization_cfg := [ex_cand 0 8 8]\<rparr>]\<rparr>)) =
     length (nodes ex_graph) \<and>
   map (\<lambda>n. length (candidates_quantization_cfg n))
     (nodes (ex_graph\<lparr>nodes :=
             [ex_node\<lparr>candidates_quantization_cfg :=
                [ex_cand (Suc 0) 8 8, ex_cand 3 8 4, ex_cand 2 4 8, ex_cand 4 2 2]\<rparr>]\<rparr>)) = [4] \<and>
   map (\<lambda>n. length (candidates_quantization_cfg n))
     (nodes (ex_graph\<lparr>nodes := [ex_node\<lparr>candidates_quantization_cfg := [ex_cand 0 8 8]\<rparr>]\<rparr>)) = [1]"
proof -
  note r1 = ex_graph_result [of "0::nat"]
  note r2 = ex_graph_result_no_mp [of "0::nat"]
  have v: "map (\<lambda>n. QuantizationConfigOptions_valid (get_qco n (tpc ex_graph))) (nodes ex_graph) =
      [True]"
    by (simp add: ex_graph_def get_qco_def ex_tpc_def ex_options_def
        QuantizationConfigOptions_valid_def)
  from every_node_gets_candidates [OF r1 ex_graph_valid] have n1:
    "length (nodes (ex_graph\<lparr>nodes :=
             [ex_node\<lparr>candidates_quantization_cfg :=
                [ex_cand (Suc 0) 8 8, ex_cand 3 8 4, ex_cand 2 4 8, ex_cand 4 2 2]\<rparr>]\<rparr>)) =
     length (nodes ex_graph)"
    by (rule conjunct1)
  from every_node_gets_candidates [OF r2 ex_graph_valid] have n2:
    "length (nodes (ex_graph\<lparr>nodes := [ex_node\<lparr>candidates_quantization_cfg := [ex_cand 0 8 8]\<rparr>]\<rparr>)) =
     length (nodes ex_graph)"
    by (rule conjunct1)
  have l4: "map (\<lambda>n. length (candidates_quantization_cfg n))
     (nodes (ex_graph\<lparr>nodes :=
             [ex_node\<lparr>candidates_quantization_cfg :=
                [ex_cand (Suc 0) 8 8, ex_cand 3 8 4, ex_cand 2 4 8, ex_cand 4 2 2]\<rparr>]\<rparr>)) = [4]"
    by simp
  have l1: "map (\<lambda>n. length (candidates_quantization_cfg n))
     (nodes (ex_graph\<lparr>nodes := [ex_node\<lparr>candidates_quantization_cfg := [ex_cand 0 8 8]\<rparr>]\<rparr>)) = [1]"
    by simp
  from r1 r2 v n1 n2 l4 l1 show ?thesis by (intro conjI)
qed




end
